theory Spec2Isabelle
  imports Main
begin

text \<open>
  The listener of the Quil parser of pyQuil (\<open>pyquil/_parser/PyQuilListener.py\<close>): the
  handlers that turn the nodes of a syntax tree into instructions, the resolvers of
  qubits, addresses and expressions they call, and the listener for syntax errors. A
  syntax node is the record of what the listener reads of it. The definitions follow the
  source; the theorems about them follow the definitions.
\<close>

section \<open>Errors\<close>

text \<open>
  Every exception the listener can raise is a value. \<open>RuntimeError\<close> and \<open>ValueError\<close>
  carry the rendered message. Two \<open>ValueError\<close>s whose message holds the \<open>repr\<close> of an
  object carry the object instead: \<open>ValueError_int\<close> is the error of \<open>int(text)\<close> on a
  text that is no integer literal, \<open>ValueError_mrefs\<close> is the error of
  \<open>exitDefCalibration\<close> (the set of memory references and the calibration's name).
  \<open>HostError\<close> is any error of the host's arithmetic (\<open>ZeroDivisionError\<close>,
  \<open>OverflowError\<close>).
\<close>

datatype memory_reference = MemoryReference string int | Addr int

datatype error =
    RuntimeError string
  | ValueError string
  | ValueError_int string
  | ValueError_mrefs "memory_reference set" string
  | IndexError
  | AttributeError
  | TypeError string
  | HostError string

text \<open>\<open>except ValueError\<close> catches the three kinds of \<open>ValueError\<close> and nothing else.\<close>

fun is_ValueError :: "error \<Rightarrow> bool" where
  "is_ValueError (ValueError m) = True"
| "is_ValueError (ValueError_int t) = True"
| "is_ValueError (ValueError_mrefs M n) = True"
| "is_ValueError e = False"

text \<open>A comprehension or \<open>map\<close> over a list whose function may raise: the first error wins.\<close>

fun map_raise :: "('a \<Rightarrow> error + 'b) \<Rightarrow> 'a list \<Rightarrow> error + 'b list" where
  "map_raise f [] = Inr []"
| "map_raise f (x # xs) =
     (case f x of
        Inl e \<Rightarrow> Inl e
      | Inr y \<Rightarrow> (case map_raise f xs of Inl e \<Rightarrow> Inl e | Inr ys \<Rightarrow> Inr (y # ys)))"

section \<open>Host functions on strings and integers\<close>

text \<open>
  \<open>str(n)\<close> of an integer: its decimal digits, with a minus sign when negative.
\<close>

definition digit_char :: "nat \<Rightarrow> char" where
  "digit_char d = char_of (of_char CHR ''0'' + d)"

fun str_nat :: "nat \<Rightarrow> string" where
  "str_nat n = (if n < 10 then [digit_char n] else str_nat (n div 10) @ [digit_char (n mod 10)])"

definition str_int :: "int \<Rightarrow> string" where
  "str_int i = (if i < 0 then CHR ''-'' # str_nat (nat (- i)) else str_nat (nat i))"

text \<open>
  \<open>int(text)\<close> in base 10, on ASCII text: white space around the literal is skipped, one
  sign is allowed, and the digits may be grouped by single underscores. Anything else
  raises \<open>ValueError\<close>.
\<close>

definition is_digit :: "char \<Rightarrow> bool" where
  "is_digit c = (c \<in> set ''0123456789'')"

definition is_space :: "char \<Rightarrow> bool" where
  "is_space c = (c \<in> set [CHR 0x09, CHR 0x0A, CHR 0x0B, CHR 0x0C, CHR 0x0D, CHR '' ''])"

definition digit_val :: "char \<Rightarrow> nat" where
  "digit_val c = of_char c - of_char CHR ''0''"

definition digits_val :: "string \<Rightarrow> nat" where
  "digits_val ds = foldl (\<lambda>a c. 10 * a + digit_val c) 0 ds"

fun grouped_digits :: "string \<Rightarrow> bool" where
  "grouped_digits [] = False"
| "grouped_digits [c] = is_digit c"
| "grouped_digits (c # d # cs) =
     (if is_digit c then grouped_digits (d # cs)
      else c = CHR ''_'' \<and> is_digit d \<and> grouped_digits (d # cs))"

definition int_literal :: "string \<Rightarrow> bool" where
  "int_literal body = (case body of [] \<Rightarrow> False | c # cs \<Rightarrow> is_digit c \<and> grouped_digits body)"

definition strip_space :: "string \<Rightarrow> string" where
  "strip_space s = rev (dropWhile is_space (rev (dropWhile is_space s)))"

definition py_int :: "string \<Rightarrow> error + int" where
  "py_int text =
     (let s = strip_space text;
          (sgn, body) = (case s of
                           c # cs \<Rightarrow> if c = CHR ''-'' then (- 1, cs)
                                     else if c = CHR ''+'' then (1, cs) else (1, s)
                         | [] \<Rightarrow> (1, s))
      in if int_literal body
         then Inr (sgn * int (digits_val (filter (\<lambda>c. c \<noteq> CHR ''_'') body)))
         else Inl (ValueError_int text))"

text \<open>\<open>s.strip('"')\<close>: every double quote at either end is removed.\<close>

definition strip_quotes :: "string \<Rightarrow> string" where
  "strip_quotes s =
     rev (dropWhile (\<lambda>c. c = CHR 0x22) (rev (dropWhile (\<lambda>c. c = CHR 0x22) s)))"

text \<open>\<open>sep.join(xs)\<close>.\<close>

fun join :: "string \<Rightarrow> string list \<Rightarrow> string" where
  "join sep [] = []"
| "join sep [x] = x"
| "join sep (x # y # ys) = x @ sep @ join sep (y # ys)"

text \<open>
  \<open>xs[i]\<close> on a list: a negative index counts from the end, an index out of range raises
  \<open>IndexError\<close>.
\<close>

definition py_index :: "'a list \<Rightarrow> int \<Rightarrow> error + 'a" where
  "py_index xs i =
     (if 0 \<le> i \<and> i < int (length xs) then Inr (xs ! nat i)
      else if i < 0 \<and> - int (length xs) \<le> i then Inr (xs ! nat (int (length xs) + i))
      else Inl IndexError)"

section \<open>Atoms and reference resolvers\<close>

text \<open>
  Modelled from the spec: the classes \<open>Qubit\<close> and \<open>FormalArgument\<close> of
  \<open>pyquil.quilatom\<close> are not part of the sources at hand. A qubit reference is one of two
  variants, a concrete index or a named formal argument; the constructors validate
  nothing.
\<close>

datatype qubit_ref = Qubit int | FormalArgument string

text \<open>A qubit node, a formal qubit node: what the listener reads is the node's text.\<close>

record QubitContext =
  q_getText :: string

definition qubit :: "QubitContext \<Rightarrow> error + qubit_ref" where
  "qubit q = (case py_int (q_getText q) of Inl e \<Rightarrow> Inl e | Inr i \<Rightarrow> Inr (Qubit i))"

definition formalQubit :: "QubitContext \<Rightarrow> error + qubit_ref" where
  "formalQubit fq =
     (case qubit fq of
        Inr q \<Rightarrow> Inr q
      | Inl e \<Rightarrow> if is_ValueError e then Inr (FormalArgument (q_getText fq)) else Inl e)"

text \<open>Sequencing of steps that may raise.\<close>

definition on_ok :: "error + 'a \<Rightarrow> ('a \<Rightarrow> error + 'b) \<Rightarrow> error + 'b" where
  "on_ok r f = (case r of Inl e \<Rightarrow> Inl e | Inr x \<Rightarrow> f x)"

text \<open>
  A classical address node: the optional identifier and the optional integer token.
  Calling a method on a token that is absent raises \<open>AttributeError\<close>.
\<close>

record AddrContext =
  a_IDENTIFIER :: "string option"
  a_INT :: "string option"

definition addr :: "AddrContext \<Rightarrow> error + memory_reference" where
  "addr classical =
     (case a_IDENTIFIER classical of
        Some ident \<Rightarrow>
          (case a_INT classical of
             Some t \<Rightarrow> on_ok (py_int t) (\<lambda>i. Inr (MemoryReference ident i))
           | None \<Rightarrow> Inr (MemoryReference ident 0))
      | None \<Rightarrow>
          (case a_INT classical of
             Some t \<Rightarrow> on_ok (py_int t) (\<lambda>i. Inr (Addr i))
           | None \<Rightarrow> Inl AttributeError))"

section \<open>Expressions\<close>

text \<open>
  Modelled from the spec: the class \<open>Expression\<close> of \<open>pyquil.quilatom\<close>, its operators
  and \<open>_contained_mrefs\<close> are not part of the sources at hand. An expression is a
  concrete number or a symbolic node: a named parameter, a memory reference, an operator
  over two sub-expressions, a function applied to a sub-expression. An operator with a
  symbolic operand builds the symbolic node; \<open>contained_mrefs\<close> collects the memory
  references that occur in an expression.

  The concrete numbers are those of the host (integers, floats, complex numbers); their
  type is the parameter \<open>'n\<close>, and the host's arithmetic is the record \<open>'n host\<close>.
\<close>

datatype binop = Pow | Mul | Div | Add | Sub

datatype fname = Sin | Cos | Sqrt | Exp | Cis

datatype 'n expr =
    Number 'n
  | Parameter string
  | MRef memory_reference
  | BinaryExp binop "'n expr" "'n expr"
  | Function fname "'n expr"

fun contained_mrefs :: "'n expr \<Rightarrow> memory_reference set" where
  "contained_mrefs (BinaryExp opr a b) = contained_mrefs a \<union> contained_mrefs b"
| "contained_mrefs (Function f a) = contained_mrefs a"
| "contained_mrefs (MRef m) = {m}"
| "contained_mrefs e = {}"

record 'n host =
  h_int :: "int \<Rightarrow> 'n"
  h_float :: "string \<Rightarrow> error + 'n"
  h_pi :: "'n"
  h_complex :: "'n \<Rightarrow> error + 'n"
  h_op :: "binop \<Rightarrow> 'n \<Rightarrow> 'n \<Rightarrow> error + 'n"
  h_fn :: "fname \<Rightarrow> 'n \<Rightarrow> error + 'n"

text \<open>\<open>op(a, b)\<close>: the host's arithmetic on two numbers, a symbolic node otherwise.\<close>

fun apply_op :: "'n host \<Rightarrow> binop \<Rightarrow> 'n expr \<Rightarrow> 'n expr \<Rightarrow> error + 'n expr" where
  "apply_op np opr (Number x) (Number y) = on_ok (h_op np opr x y) (\<lambda>z. Inr (Number z))"
| "apply_op np opr a b = Inr (BinaryExp opr a b)"

subsection \<open>Syntax nodes of expressions\<close>

record RealNContext =
  r_FLOAT :: bool
  r_INT :: bool
  r_getText :: string

record NumberContext =
  n_MINUS :: bool
  n_realN :: "RealNContext option"
  n_imaginaryN :: "RealNContext option"
  n_I :: bool
  n_PI :: bool
  n_getText :: string

record VariableContext =
  v_IDENTIFIER :: string

datatype FunctionContext = SIN | COS | SQRT | EXP | CIS | OtherFunction string

text \<open>
  An expression node is of one of the classes the evaluator dispatches on, or of another
  class. A node holds what the evaluator reads of it: the operator tokens that are
  present, the sub-expressions, and the node's text where it can appear in a message.
\<close>

datatype ExpressionContext =
    ParenthesisExpContext ExpressionContext
  | PowerExpContext bool ExpressionContext ExpressionContext string
  | MulDivExpContext bool bool ExpressionContext ExpressionContext string
  | AddSubExpContext bool bool ExpressionContext ExpressionContext string
  | SignedExpContext bool bool ExpressionContext string
  | FunctionExpContext FunctionContext ExpressionContext
  | AddrExpContext AddrContext
  | NumberExpContext NumberContext
  | VariableExpContext VariableContext
  | OtherExpContext string

subsection \<open>The evaluator\<close>

definition sign :: "NumberContext \<Rightarrow> int" where
  "sign number = (if n_MINUS number then - 1 else 1)"

definition realN :: "'n host \<Rightarrow> RealNContext \<Rightarrow> error + 'n" where
  "realN np r =
     (if r_FLOAT r then h_float np (r_getText r)
      else if r_INT r then on_ok (py_int (r_getText r)) (\<lambda>i. Inr (h_int np i))
      else Inl (RuntimeError (''Unexpected real: '' @ r_getText r)))"

definition number :: "'n host \<Rightarrow> NumberContext \<Rightarrow> error + 'n" where
  "number np n =
     (case n_realN n of
        Some r \<Rightarrow> on_ok (realN np r) (\<lambda>x. h_op np Mul (h_int np (sign n)) x)
      | None \<Rightarrow>
     (case n_imaginaryN n of
        Some r \<Rightarrow>
          on_ok (realN np r) (\<lambda>x. on_ok (h_complex np x) (\<lambda>c. h_op np Mul (h_int np (sign n)) c))
      | None \<Rightarrow>
     (if n_I n then on_ok (h_complex np (h_int np 1)) (\<lambda>c. h_op np Mul (h_int np (sign n)) c)
      else if n_PI n then h_op np Mul (h_int np (sign n)) (h_pi np)
      else Inl (RuntimeError (''Unexpected number: '' @ n_getText n)))))"

definition variable :: "VariableContext \<Rightarrow> 'n expr" where
  "variable v = Parameter (v_IDENTIFIER v)"

definition apply_function :: "'n host \<Rightarrow> FunctionContext \<Rightarrow> 'n expr \<Rightarrow> error + 'n expr" where
  "apply_function np func arg =
     (case arg of
        Number x \<Rightarrow>
          (case func of
             SIN \<Rightarrow> on_ok (h_fn np Sin x) (\<lambda>y. Inr (Number y))
           | COS \<Rightarrow> on_ok (h_fn np Cos x) (\<lambda>y. Inr (Number y))
           | SQRT \<Rightarrow> on_ok (h_fn np Sqrt x) (\<lambda>y. Inr (Number y))
           | EXP \<Rightarrow> on_ok (h_fn np Exp x) (\<lambda>y. Inr (Number y))
           | CIS \<Rightarrow>
               on_ok (h_fn np Cos x) (\<lambda>c.
               on_ok (h_complex np (h_int np 1)) (\<lambda>i.
               on_ok (h_fn np Sin x) (\<lambda>s.
               on_ok (h_op np Mul i s) (\<lambda>m.
               on_ok (h_op np Add c m) (\<lambda>y. Inr (Number y))))))
           | OtherFunction t \<Rightarrow> Inl (RuntimeError (''Unexpected function to apply: '' @ t)))
      | _ \<Rightarrow>
          (case func of
             SIN \<Rightarrow> Inr (Function Sin arg)
           | COS \<Rightarrow> Inr (Function Cos arg)
           | SQRT \<Rightarrow> Inr (Function Sqrt arg)
           | EXP \<Rightarrow> Inr (Function Exp arg)
           | CIS \<Rightarrow> Inr (Function Cis arg)
           | OtherFunction t \<Rightarrow> Inl (RuntimeError (''Unexpected function to apply: '' @ t))))"

definition unexpected_expression :: "string \<Rightarrow> error + 'a" where
  "unexpected_expression t = Inl (RuntimeError (''Unexpected expression type:'' @ t))"

text \<open>\<open>_binary_exp\<close>, on the two operands already evaluated.\<close>

definition binary_exp :: "'n host \<Rightarrow> binop \<Rightarrow> error + 'n expr \<Rightarrow> error + 'n expr \<Rightarrow> error + 'n expr" where
  "binary_exp np opr r1 r2 = on_ok r1 (\<lambda>a. on_ok r2 (\<lambda>b. apply_op np opr a b))"

fun expression :: "'n host \<Rightarrow> ExpressionContext \<Rightarrow> error + 'n expr" where
  "expression np (ParenthesisExpContext e) = expression np e"
| "expression np (PowerExpContext POWER a b t) =
     (if POWER then binary_exp np Pow (expression np a) (expression np b)
      else unexpected_expression t)"
| "expression np (MulDivExpContext TIMES DIVIDE a b t) =
     (if TIMES then binary_exp np Mul (expression np a) (expression np b)
      else if DIVIDE then binary_exp np Div (expression np a) (expression np b)
      else unexpected_expression t)"
| "expression np (AddSubExpContext PLUS MINUS a b t) =
     (if PLUS then binary_exp np Add (expression np a) (expression np b)
      else if MINUS then binary_exp np Sub (expression np a) (expression np b)
      else unexpected_expression t)"
| "expression np (SignedExpContext PLUS MINUS e t) =
     (if PLUS then expression np e
      else if MINUS
      then (case expression np e of
              Inl err \<Rightarrow> Inl err
            | Inr v \<Rightarrow> apply_op np Mul (Number (h_int np (- 1))) v)
      else unexpected_expression t)"
| "expression np (FunctionExpContext func e) =
     (case expression np e of Inl err \<Rightarrow> Inl err | Inr v \<Rightarrow> apply_function np func v)"
| "expression np (AddrExpContext a) =
     (case addr a of Inl err \<Rightarrow> Inl err | Inr m \<Rightarrow> Inr (MRef m))"
| "expression np (NumberExpContext n) =
     (case number np n of Inl err \<Rightarrow> Inl err | Inr x \<Rightarrow> Inr (Number x))"
| "expression np (VariableExpContext v) = Inr (variable v)"
| "expression np (OtherExpContext t) = unexpected_expression t"

record ParamContext =
  p_expression :: "ExpressionContext option"
  p_getText :: string

definition param :: "'n host \<Rightarrow> ParamContext \<Rightarrow> error + 'n expr" where
  "param np p =
     (case p_expression p of
        Some e \<Rightarrow> expression np e
      | None \<Rightarrow> Inl (RuntimeError (''Unexpected param: '' @ p_getText p)))"

text \<open>A matrix node is the list of its rows, a row the list of its expression nodes.\<close>

definition matrix :: "'n host \<Rightarrow> ExpressionContext list list \<Rightarrow> error + 'n expr list list" where
  "matrix np m = map_raise (\<lambda>row. map_raise (expression np) row) m"

definition waveform_name :: "string list \<Rightarrow> string" where
  "waveform_name names = join ''/'' names"

section \<open>Instructions\<close>

text \<open>
  Modelled from the spec: the instruction classes of \<open>pyquil.quilbase\<close> and \<open>Frame\<close> of
  \<open>pyquil.quilatom\<close> are not part of the sources at hand. A gate application is a base
  gate (name, parameters, qubits) under the wrappers its modifiers put around it:
  \<open>controlled\<close> wraps a gate with one more qubit, \<open>dagger\<close> wraps it as its adjoint,
  \<open>forked\<close> wraps it with one more qubit and one more group of parameters. The other
  instructions hold the fields their constructor is given.
\<close>

datatype 'n gate =
    Gate string "'n expr list" "qubit_ref list"
  | Controlled qubit_ref "'n gate"
  | Dagger "'n gate"
  | Forked qubit_ref "'n expr list" "'n gate"

datatype operand = OpInt int | OpRef memory_reference

datatype frame = Frame "qubit_ref list" string

datatype 'n instr =
    GateInstr "'n gate"
  | RawInstr string
  | Declare string string int "string option" "(int \<times> string) list"
  | ClassicalAnd memory_reference operand
  | ClassicalOr memory_reference memory_reference
  | ClassicalInclusiveOr memory_reference operand
  | ClassicalExclusiveOr memory_reference operand
  | DefCalibration string "'n expr list" "qubit_ref list" "'n instr list"
  | DefMeasureCalibration qubit_ref "qubit_ref option" "'n instr list"
  | DefWaveform string "string list" "'n expr list"
  | DelayFrames "frame list" "'n expr"
  | DelayQubits "qubit_ref list" "'n expr"

text \<open>
  The catalog of primitive gates is not part of the sources at hand: it is a parameter, a
  table from a gate's name to its constructor. The constructor is called with the
  parameters followed by the qubits, and may raise.
\<close>

datatype 'n arg = ArgParam "'n expr" | ArgQubit qubit_ref

type_synonym 'n catalog = "string \<rightharpoonup> ('n arg list \<Rightarrow> error + 'n gate)"

section \<open>The listener\<close>

text \<open>
  The listener's state: the accumulation buffer \<open>result\<close> and the saved buffer
  \<open>previous_result\<close> (\<open>None\<close> when no definition is open). A handler returns the new
  state, or the error it raises; an error ends the walk.
\<close>

record 'n PyQuilListener =
  result :: "'n instr list"
  previous_result :: "'n instr list option"

definition init :: "'n PyQuilListener" where
  "init = \<lparr>result = [], previous_result = None\<rparr>"

definition append_result :: "'n instr \<Rightarrow> 'n PyQuilListener \<Rightarrow> 'n PyQuilListener" where
  "append_result i st = st\<lparr>result := result st @ [i]\<rparr>"

subsection \<open>Gate applications\<close>

record GateContext =
  g_name :: string
  g_modifier :: "string list"
  g_param :: "ParamContext list"
  g_qubit :: "QubitContext list"

text \<open>The first loop of \<open>exitGate\<close>: one qubit for every \<open>CONTROLLED\<close> and \<open>FORKED\<close>.\<close>

fun modifier_qubits_loop ::
  "string list \<Rightarrow> qubit_ref list \<Rightarrow> qubit_ref list \<Rightarrow> error + qubit_ref list" where
  "modifier_qubits_loop [] qubits modifier_qubits = Inr modifier_qubits"
| "modifier_qubits_loop (m # ms) qubits modifier_qubits =
     (if m \<in> set [''CONTROLLED'', ''FORKED'']
      then (case py_index qubits (int (length modifier_qubits)) of
              Inl e \<Rightarrow> Inl e
            | Inr q \<Rightarrow> modifier_qubits_loop ms qubits (modifier_qubits @ [q]))
      else modifier_qubits_loop ms qubits modifier_qubits)"

text \<open>\<open>xs.pop()\<close>: the last element and the list without it.\<close>

definition pop :: "'a list \<Rightarrow> error + ('a \<times> 'a list)" where
  "pop xs = (if xs = [] then Inl IndexError else Inr (last xs, butlast xs))"

text \<open>
  The second loop of \<open>exitGate\<close>, over the reversed modifiers: the gate built so far,
  the modifier qubits left and \<open>forked_offset\<close> are its state.
\<close>

fun apply_modifiers ::
  "'n expr list \<Rightarrow> string list \<Rightarrow> 'n gate \<Rightarrow> qubit_ref list \<Rightarrow> nat \<Rightarrow> error + 'n gate" where
  "apply_modifiers params [] gate modifier_qubits forked_offset = Inr gate"
| "apply_modifiers params (modifier # ms) gate modifier_qubits forked_offset =
     (if modifier = ''CONTROLLED''
      then (case pop modifier_qubits of
              Inl e \<Rightarrow> Inl e
            | Inr (q, rest) \<Rightarrow> apply_modifiers params ms (Controlled q gate) rest forked_offset)
      else if modifier = ''DAGGER''
      then apply_modifiers params ms (Dagger gate) modifier_qubits forked_offset
      else if modifier = ''FORKED''
      then (case pop modifier_qubits of
              Inl e \<Rightarrow> Inl e
            | Inr (q, rest) \<Rightarrow>
                apply_modifiers params ms
                  (Forked q (take forked_offset (drop forked_offset params)) gate)
                  rest (forked_offset * 2))
      else Inl (ValueError (''Unsupported gate modifier '' @ modifier @ ''.'')))"

definition base_gate ::
  "'n catalog \<Rightarrow> string \<Rightarrow> 'n expr list \<Rightarrow> qubit_ref list \<Rightarrow> error + 'n gate" where
  "base_gate QUANTUM_GATES gate_name base_params base_qubits =
     (case QUANTUM_GATES gate_name of
        Some ctor \<Rightarrow>
          (if base_params \<noteq> []
           then ctor (map ArgParam base_params @ map ArgQubit base_qubits)
           else ctor (map ArgQubit base_qubits))
      | None \<Rightarrow> Inr (Gate gate_name base_params base_qubits))"

text \<open>The body of \<open>exitGate\<close> after the parameters and the qubits are resolved.\<close>

definition build_gate ::
  "'n catalog \<Rightarrow> string \<Rightarrow> string list \<Rightarrow> 'n expr list \<Rightarrow> qubit_ref list \<Rightarrow> error + 'n gate" where
  "build_gate QUANTUM_GATES gate_name modifiers params qubits =
     on_ok (modifier_qubits_loop modifiers qubits []) (\<lambda>modifier_qubits.
       let base_qubits = drop (length modifier_qubits) qubits;
           forked_offset = length params div 2 ^ count_list modifiers ''FORKED'';
           base_params = take forked_offset params
       in on_ok (base_gate QUANTUM_GATES gate_name base_params base_qubits) (\<lambda>gate.
            apply_modifiers params (rev modifiers) gate modifier_qubits forked_offset))"

definition exitGate ::
  "'n host \<Rightarrow> 'n catalog \<Rightarrow> GateContext \<Rightarrow> 'n PyQuilListener \<Rightarrow> error + 'n PyQuilListener" where
  "exitGate np QUANTUM_GATES ctx st =
     (let gate_name = g_name ctx;
          modifiers = g_modifier ctx
      in on_ok (map_raise (param np) (g_param ctx)) (\<lambda>params.
         on_ok (map_raise qubit (g_qubit ctx)) (\<lambda>qubits.
         on_ok (build_gate QUANTUM_GATES gate_name modifiers params qubits) (\<lambda>gate.
           Inr (append_result (GateInstr gate) st)))))"

subsection \<open>Scoped definitions\<close>

record DefCircuitContext =
  dc_name :: string
  dc_variable :: "string list"
  dc_qubitVariable :: "string list"

record DefCalibrationContext =
  cal_name :: string
  cal_param :: "ParamContext list"
  cal_formalQubit :: "QubitContext list"

record DefMeasCalibrationContext =
  mc_name :: "string option"
  mc_formalQubit :: QubitContext

definition enterDefCircuit :: "'n PyQuilListener \<Rightarrow> 'n PyQuilListener" where
  "enterDefCircuit st = \<lparr>result = [], previous_result = Some (result st)\<rparr>"

text \<open>
  \<open>instr.out()\<close>, the text of an instruction, is not part of the sources at hand: it is the
  parameter \<open>out\<close>.
\<close>

definition exitDefCircuit ::
  "('n instr \<Rightarrow> error + string) \<Rightarrow> DefCircuitContext \<Rightarrow> 'n PyQuilListener
     \<Rightarrow> error + 'n PyQuilListener" where
  "exitDefCircuit out ctx st =
     (let circuit_name = dc_name ctx;
          variables = dc_variable ctx;
          qubitVariables = dc_qubitVariable ctx;
          space = (if qubitVariables \<noteq> [] then '' '' else []);
          header =
            (if variables \<noteq> []
             then ''DEFCIRCUIT '' @ circuit_name @ ''('' @ join '', '' variables @ '')'' @ space
                    @ join '' '' qubitVariables @ '':''
             else ''DEFCIRCUIT '' @ circuit_name @ space @ join '' '' qubitVariables @ '':'')
      in on_ok (map_raise out (result st)) (\<lambda>outs.
           let raw_defcircuit = header @ join (CHR 0x0A # ''    '') ([] # outs)
           in (case previous_result st of
                 None \<Rightarrow> Inl AttributeError
               | Some previous \<Rightarrow>
                   Inr \<lparr>result = previous @ [RawInstr raw_defcircuit], previous_result = None\<rparr>)))"

definition enterDefCalibration :: "'n PyQuilListener \<Rightarrow> 'n PyQuilListener" where
  "enterDefCalibration st = \<lparr>result = [], previous_result = Some (result st)\<rparr>"

text \<open>The check of \<open>exitDefCalibration\<close> on the parameters, in order.\<close>

fun check_mrefs :: "string \<Rightarrow> 'n expr list \<Rightarrow> error + unit" where
  "check_mrefs name [] = Inr ()"
| "check_mrefs name (p # ps) =
     (let mrefs = contained_mrefs p
      in if mrefs \<noteq> {} then Inl (ValueError_mrefs mrefs name) else check_mrefs name ps)"

definition exitDefCalibration ::
  "'n host \<Rightarrow> DefCalibrationContext \<Rightarrow> 'n PyQuilListener \<Rightarrow> error + 'n PyQuilListener" where
  "exitDefCalibration np ctx st =
     (let name = cal_name ctx
      in on_ok (map_raise (param np) (cal_param ctx)) (\<lambda>parameters.
         on_ok (check_mrefs name parameters) (\<lambda>_.
         on_ok (map_raise formalQubit (cal_formalQubit ctx)) (\<lambda>qubits.
           let instrs = result st
           in (case previous_result st of
                 None \<Rightarrow> Inl AttributeError
               | Some previous \<Rightarrow>
                   Inr \<lparr>result = previous @ [DefCalibration name parameters qubits instrs],
                        previous_result = None\<rparr>)))))"

definition enterDefMeasCalibration :: "'n PyQuilListener \<Rightarrow> 'n PyQuilListener" where
  "enterDefMeasCalibration st = \<lparr>result = [], previous_result = Some (result st)\<rparr>"

definition exitDefMeasCalibration ::
  "DefMeasCalibrationContext \<Rightarrow> 'n PyQuilListener \<Rightarrow> error + 'n PyQuilListener" where
  "exitDefMeasCalibration ctx st =
     (let memory_reference = (case mc_name ctx of Some t \<Rightarrow> Some (FormalArgument t) | None \<Rightarrow> None)
      in on_ok (formalQubit (mc_formalQubit ctx)) (\<lambda>qubit.
           let instrs = result st
           in (case previous_result st of
                 None \<Rightarrow> Inl AttributeError
               | Some previous \<Rightarrow>
                   Inr \<lparr>result = previous @ [DefMeasureCalibration qubit memory_reference instrs],
                        previous_result = None\<rparr>)))"

subsection \<open>Waveform definitions\<close>

text \<open>
  The catalog of waveform templates is not part of the sources at hand: it is a parameter,
  a table whose keys are the reserved names.
\<close>

record DefWaveformContext =
  w_waveformName :: "string list"
  w_param :: "string list"
  w_matrix :: "ExpressionContext list list"

definition exitDefWaveform ::
  "'n host \<Rightarrow> (string \<rightharpoonup> 'w) \<Rightarrow> DefWaveformContext \<Rightarrow> 'n PyQuilListener
     \<Rightarrow> error + 'n PyQuilListener" where
  "exitDefWaveform np waveform_classes ctx st =
     (let name = waveform_name (w_waveformName ctx)
      in if waveform_classes name \<noteq> None
         then Inl (ValueError (''Attempted to redefine built-in template waveform '' @ name @ ''.''))
         else
           (let parameters = w_param ctx
            in on_ok (matrix np (w_matrix ctx)) (\<lambda>rows.
                 let entries = concat rows
                 in Inr (append_result (DefWaveform name parameters entries) st))))"

subsection \<open>Delays\<close>

record DelayContext =
  d_formalQubit :: "QubitContext list"
  d_STRING :: "string list"
  d_expression :: ExpressionContext

definition exitDelay ::
  "'n host \<Rightarrow> DelayContext \<Rightarrow> 'n PyQuilListener \<Rightarrow> error + 'n PyQuilListener" where
  "exitDelay np ctx st =
     on_ok (map_raise formalQubit (d_formalQubit ctx)) (\<lambda>qubits.
       let explicit_frames = map strip_quotes (d_STRING ctx)
       in on_ok (expression np (d_expression ctx)) (\<lambda>duration.
            let delay =
              (if explicit_frames \<noteq> []
               then DelayFrames (map (\<lambda>name. Frame qubits name) explicit_frames) duration
               else DelayQubits qubits duration)
            in Inr (append_result delay st)))"

subsection \<open>Memory declarations\<close>

record OffsetDescriptorContext =
  o_INT :: string
  o_IDENTIFIER :: string

record MemoryDescriptorContext =
  m_IDENTIFIER :: "string list"
  m_INT :: "string option"
  m_SHARING :: bool
  m_offsetDescriptor :: "OffsetDescriptorContext list"

text \<open>
  \<open>ctx.IDENTIFIER(i).getText()\<close>: the i-th token of that type is \<open>None\<close> when there is
  none, and its text cannot be read then.
\<close>

definition token_text :: "string list \<Rightarrow> nat \<Rightarrow> error + string" where
  "token_text toks i = (if i < length toks then Inr (toks ! i) else Inl AttributeError)"

definition offset_pair :: "OffsetDescriptorContext \<Rightarrow> error + (int \<times> string)" where
  "offset_pair offset_ctx = on_ok (py_int (o_INT offset_ctx)) (\<lambda>i. Inr (i, o_IDENTIFIER offset_ctx))"

definition exitMemoryDescriptor ::
  "MemoryDescriptorContext \<Rightarrow> 'n PyQuilListener \<Rightarrow> error + 'n PyQuilListener" where
  "exitMemoryDescriptor ctx st =
     on_ok (token_text (m_IDENTIFIER ctx) 0) (\<lambda>name.
     on_ok (token_text (m_IDENTIFIER ctx) 1) (\<lambda>memory_type.
     on_ok (case m_INT ctx of Some t \<Rightarrow> py_int t | None \<Rightarrow> Inr 1) (\<lambda>memory_size.
     on_ok (if m_SHARING ctx
            then on_ok (token_text (m_IDENTIFIER ctx) 2) (\<lambda>shared_region.
                 on_ok (map_raise offset_pair (m_offsetDescriptor ctx)) (\<lambda>offsets.
                   Inr (Some shared_region, offsets)))
            else Inr (None, [])) (\<lambda>(shared_region, offsets).
       Inr (append_result (Declare name memory_type memory_size shared_region offsets) st)))))"

subsection \<open>Logical binary operations\<close>

record LogicalBinaryOpContext =
  l_addr :: "AddrContext list"
  l_INT :: "string option"
  l_AND :: bool
  l_OR :: bool
  l_IOR :: bool
  l_XOR :: bool

text \<open>\<open>_addr(ctx.addr(i))\<close>: the i-th address node is \<open>None\<close> when there is none.\<close>

definition addr_at :: "AddrContext list \<Rightarrow> nat \<Rightarrow> error + memory_reference" where
  "addr_at nodes i = (if i < length nodes then addr (nodes ! i) else Inl AttributeError)"

definition exitLogicalBinaryOp ::
  "LogicalBinaryOpContext \<Rightarrow> 'n PyQuilListener \<Rightarrow> error + 'n PyQuilListener" where
  "exitLogicalBinaryOp ctx st =
     on_ok (addr_at (l_addr ctx) 0) (\<lambda>left.
     on_ok (case l_INT ctx of
              Some t \<Rightarrow> on_ok (py_int t) (\<lambda>i. Inr (OpInt i))
            | None \<Rightarrow> on_ok (addr_at (l_addr ctx) 1) (\<lambda>m. Inr (OpRef m))) (\<lambda>right.
       if l_AND ctx then Inr (append_result (ClassicalAnd left right) st)
       else if l_OR ctx
       then (case right of
               OpRef m \<Rightarrow> Inr (append_result (ClassicalOr left m) st)
             | OpInt i \<Rightarrow>
                 Inl (RuntimeError
                   (''Right operand of deprecated OR instruction must be a''
                    @ '' MemoryReference, but found '' @ [CHR 0x27] @ str_int i @ [CHR 0x27])))
       else if l_IOR ctx then Inr (append_result (ClassicalInclusiveOr left right) st)
       else if l_XOR ctx then Inr (append_result (ClassicalExclusiveOr left right) st)
       else Inr st))"

section \<open>The syntax error listener\<close>

text \<open>
  The parser's tables \<open>literalNames\<close> and \<open>symbolicNames\<close> are not part of the sources at
  hand: they are parameters. The expected tokens are the token types of the exception's
  interval set, in its order; \<open>e\<close> is \<open>None\<close> when the error is reported without an
  exception.
\<close>

fun get_expected_tokens :: "string list \<Rightarrow> string list \<Rightarrow> int list \<Rightarrow> error + string list" where
  "get_expected_tokens literalNames symbolicNames [] = Inr []"
| "get_expected_tokens literalNames symbolicNames (tok # toks) =
     (case py_index literalNames tok of
        Inl err \<Rightarrow> Inl err
      | Inr literal_name \<Rightarrow>
     (case py_index symbolicNames tok of
        Inl err \<Rightarrow> Inl err
      | Inr symbolic_name \<Rightarrow>
     (case get_expected_tokens literalNames symbolicNames toks of
        Inl err \<Rightarrow> Inl err
      | Inr names \<Rightarrow>
          Inr ((if literal_name \<noteq> ''<INVALID>'' then literal_name else symbolic_name) # names))))"

definition syntaxError ::
  "string list \<Rightarrow> string list \<Rightarrow> string \<Rightarrow> int \<Rightarrow> int \<Rightarrow> int list option \<Rightarrow> error + unit" where
  "syntaxError literalNames symbolicNames offendingSymbol_text line column e =
     on_ok (case e of
              Some interval_set \<Rightarrow> get_expected_tokens literalNames symbolicNames interval_set
            | None \<Rightarrow> Inr []) (\<lambda>expected_tokens.
       Inl (RuntimeError
         (''Error encountered while parsing the quil program at line '' @ str_int line
          @ '' and column '' @ str_int (column + 1) @ [CHR 0x0A]
          @ ''Received an '' @ [CHR 0x27] @ offendingSymbol_text @ [CHR 0x27]
          @ '' but was expecting one of [ '' @ join '', '' expected_tokens @ '' ]'')))"

section \<open>Notions of the specification\<close>

text \<open>
  An identifier of the grammar: a letter or an underscore, followed by letters, digits,
  hyphens and underscores, the last of which is no hyphen.
\<close>

definition is_letter :: "char \<Rightarrow> bool" where
  "is_letter c = (c \<in> set ''abcdefghijklmnopqrstuvwxyzABCDEFGHIJKLMNOPQRSTUVWXYZ'')"

definition is_identifier :: "string \<Rightarrow> bool" where
  "is_identifier t =
     (case t of
        [] \<Rightarrow> False
      | c # cs \<Rightarrow>
          (is_letter c \<or> c = CHR ''_'')
          \<and> list_all (\<lambda>d. is_letter d \<or> is_digit d \<or> d = CHR ''-'' \<or> d = CHR ''_'') cs
          \<and> last t \<noteq> CHR ''-'')"

text \<open>
  The modifiers that take a qubit, and the number of qubits a list of modifiers takes.
\<close>

definition takes_qubit :: "string \<Rightarrow> bool" where
  "takes_qubit m = (m = ''CONTROLLED'' \<or> m = ''FORKED'')"

definition modifier_arity :: "string list \<Rightarrow> nat" where
  "modifier_arity ms = length (filter takes_qubit ms)"

definition known_modifier :: "string \<Rightarrow> bool" where
  "known_modifier m = (m = ''CONTROLLED'' \<or> m = ''DAGGER'' \<or> m = ''FORKED'')"

text \<open>
  The j-th window of parameters behind the base gate's: with \<open>f\<close> parameters for the
  base gate, the first window is the next \<open>f\<close> parameters, and every window is as long as
  all that precedes it.
\<close>

definition window :: "'a list \<Rightarrow> nat \<Rightarrow> nat \<Rightarrow> 'a list" where
  "window params f j = take (f * 2 ^ j) (drop (f * 2 ^ j) params)"

text \<open>
  The modifiers read as they are written, from the left: the leftmost modifier is the
  outermost wrapper and takes the first modifier qubit; a \<open>FORKED\<close> with \<open>j\<close> further
  \<open>FORKED\<close> to its right takes the j-th window.
\<close>

fun wrap :: "'n expr list \<Rightarrow> nat \<Rightarrow> string list \<Rightarrow> qubit_ref list \<Rightarrow> 'n gate \<Rightarrow> 'n gate" where
  "wrap params f [] qs base = base"
| "wrap params f (m # ms) qs base =
     (if m = ''DAGGER'' then Dagger (wrap params f ms qs base)
      else (case qs of
              [] \<Rightarrow> wrap params f ms qs base
            | q # rest \<Rightarrow>
                if m = ''CONTROLLED'' then Controlled q (wrap params f ms rest base)
                else Forked q (window params f (count_list ms ''FORKED''))
                       (wrap params f ms rest base)))"

text \<open>The parameter groups of the \<open>FORKED\<close> wrappers of a gate, the innermost first.\<close>

fun fork_groups :: "'n gate \<Rightarrow> 'n expr list list" where
  "fork_groups (Gate name ps qs) = []"
| "fork_groups (Controlled q g) = fork_groups g"
| "fork_groups (Dagger g) = fork_groups g"
| "fork_groups (Forked q ps g) = fork_groups g @ [ps]"

text \<open>The wrappers of a gate, the outermost first, without their arguments.\<close>

fun wrappers :: "'n gate \<Rightarrow> string list" where
  "wrappers (Gate name ps qs) = []"
| "wrappers (Controlled q g) = ''CONTROLLED'' # wrappers g"
| "wrappers (Dagger g) = ''DAGGER'' # wrappers g"
| "wrappers (Forked q ps g) = ''FORKED'' # wrappers g"

section \<open>Sample collaborators\<close>

text \<open>
  A host that keeps every number as the term that computes it, and so assumes nothing of
  the host's arithmetic.
\<close>

datatype num_term =
    NInt int
  | NFloat string
  | NPi
  | NComplex num_term
  | NOp binop num_term num_term
  | NFn fname num_term

definition term_host :: "num_term host" where
  "term_host =
     \<lparr>h_int = NInt,
      h_float = (\<lambda>t. Inr (NFloat t)),
      h_pi = NPi,
      h_complex = (\<lambda>x. Inr (NComplex x)),
      h_op = (\<lambda>opr x y. Inr (NOp opr x y)),
      h_fn = (\<lambda>f x. Inr (NFn f x))\<rparr>"

text \<open>A catalog with the one gate \<open>RX\<close>, of one angle and one qubit.\<close>

fun RX :: "'n arg list \<Rightarrow> error + 'n gate" where
  "RX [ArgParam angle, ArgQubit q] = Inr (Gate ''RX'' [angle] [q])"
| "RX args = Inl (TypeError ''RX() takes 2 positional arguments'')"

definition rx_catalog :: "'n catalog" where
  "rx_catalog = [''RX'' \<mapsto> RX]"

text \<open>A table of waveform templates with the one reserved name \<open>flat\<close>.\<close>

definition flat_templates :: "string \<rightharpoonup> unit" where
  "flat_templates = [''flat'' \<mapsto> ()]"

text \<open>The nodes of \<open>FORKED RX(0.5, 1.5) 0 1\<close> and of \<open>DAGGER CONTROLLED X 0 1\<close>.\<close>

definition float_param :: "string \<Rightarrow> ParamContext" where
  "float_param t =
     \<lparr>p_expression = Some (NumberExpContext
        \<lparr>n_MINUS = False,
         n_realN = Some \<lparr>r_FLOAT = True, r_INT = False, r_getText = t\<rparr>,
         n_imaginaryN = None, n_I = False, n_PI = False, n_getText = t\<rparr>),
      p_getText = t\<rparr>"

definition forked_rx :: GateContext where
  "forked_rx =
     \<lparr>g_name = ''RX'', g_modifier = [''FORKED''],
      g_param = [float_param ''0.5'', float_param ''1.5''],
      g_qubit = [\<lparr>q_getText = ''0''\<rparr>, \<lparr>q_getText = ''1''\<rparr>]\<rparr>"

definition dagger_controlled_x :: GateContext where
  "dagger_controlled_x =
     \<lparr>g_name = ''X'', g_modifier = [''DAGGER'', ''CONTROLLED''], g_param = [],
      g_qubit = [\<lparr>q_getText = ''0''\<rparr>, \<lparr>q_getText = ''1''\<rparr>]\<rparr>"

text \<open>
  The walk over the body of a definition calls one handler after the other; the first
  error ends it.
\<close>

fun run_handlers ::
  "('s \<Rightarrow> error + 's) list \<Rightarrow> 's \<Rightarrow> error + 's" where
  "run_handlers [] s = Inr s"
| "run_handlers (h # hs) s = (case h s of Inl e \<Rightarrow> Inl e | Inr s' \<Rightarrow> run_handlers hs s')"

text \<open>A handler that, when it returns, has appended one instruction and changed nothing else.\<close>

definition appends_one :: "('n PyQuilListener \<Rightarrow> error + 'n PyQuilListener) \<Rightarrow> bool" where
  "appends_one h = (\<forall>s s'. h s = Inr s' \<longrightarrow> (\<exists>i. s' = append_result i s))"

text \<open>
  The nodes of \<open>DEFCAL RX(%theta) q\<close>, of \<open>DEFCAL RX(theta[0]) q\<close>, of
  \<open>DEFCIRCUIT BELL a b\<close> and of \<open>DEFCAL MEASURE 0 dest\<close>.
\<close>

definition defcal_rx :: DefCalibrationContext where
  "defcal_rx =
     \<lparr>cal_name = ''RX'',
      cal_param = [\<lparr>p_expression = Some (VariableExpContext \<lparr>v_IDENTIFIER = ''theta''\<rparr>),
                    p_getText = ''%theta''\<rparr>],
      cal_formalQubit = [\<lparr>q_getText = ''q''\<rparr>]\<rparr>"

definition defcal_rx_mref :: DefCalibrationContext where
  "defcal_rx_mref =
     \<lparr>cal_name = ''RX'',
      cal_param = [\<lparr>p_expression = Some (AddrExpContext
                      \<lparr>a_IDENTIFIER = Some ''theta'', a_INT = Some ''0''\<rparr>),
                    p_getText = ''theta[0]''\<rparr>],
      cal_formalQubit = [\<lparr>q_getText = ''q''\<rparr>]\<rparr>"

definition defcircuit_bell :: DefCircuitContext where
  "defcircuit_bell = \<lparr>dc_name = ''BELL'', dc_variable = [], dc_qubitVariable = [''a'', ''b'']\<rparr>"

definition defcal_measure :: DefMeasCalibrationContext where
  "defcal_measure = \<lparr>mc_name = Some ''dest'', mc_formalQubit = \<lparr>q_getText = ''0''\<rparr>\<rparr>"

text \<open>A rendering of instructions that knows raw instructions only.\<close>

fun raw_out :: "'n instr \<Rightarrow> error + string" where
  "raw_out (RawInstr t) = Inr t"
| "raw_out i = Inr ''...''"

text \<open>The nodes of \<open>DELAY 0 "a" "b" 1.0\<close> and of \<open>DELAY 0 1.0\<close>.\<close>

definition float_expression :: "string \<Rightarrow> ExpressionContext" where
  "float_expression t =
     NumberExpContext
       \<lparr>n_MINUS = False,
        n_realN = Some \<lparr>r_FLOAT = True, r_INT = False, r_getText = t\<rparr>,
        n_imaginaryN = None, n_I = False, n_PI = False, n_getText = t\<rparr>"

definition delay_two_frames :: DelayContext where
  "delay_two_frames =
     \<lparr>d_formalQubit = [\<lparr>q_getText = ''0''\<rparr>],
      d_STRING = [[CHR 0x22] @ ''a'' @ [CHR 0x22], [CHR 0x22] @ ''b'' @ [CHR 0x22]],
      d_expression = float_expression ''1.0''\<rparr>"

definition delay_qubits :: DelayContext where
  "delay_qubits =
     \<lparr>d_formalQubit = [\<lparr>q_getText = ''0''\<rparr>], d_STRING = [],
      d_expression = float_expression ''1.0''\<rparr>"

text \<open>The nodes of \<open>DEFWAVEFORM flat: 1.0\<close> and of \<open>DEFWAVEFORM my_wf: 1.0, 0.5\<close>.\<close>

definition defwaveform_flat :: DefWaveformContext where
  "defwaveform_flat =
     \<lparr>w_waveformName = [''flat''], w_param = [], w_matrix = [[float_expression ''1.0'']]\<rparr>"

definition defwaveform_mine :: DefWaveformContext where
  "defwaveform_mine =
     \<lparr>w_waveformName = [''my_wf''], w_param = [],
      w_matrix = [[float_expression ''1.0'', float_expression ''0.5'']]\<rparr>"

text \<open>
  The nodes of \<open>DECLARE ro BIT SHARING foo OFFSET 2 INTEGER\<close>, of \<open>OR ro[0] 1\<close> and of
  \<open>AND ro[0] 1\<close>.
\<close>

definition declare_sharing :: MemoryDescriptorContext where
  "declare_sharing =
     \<lparr>m_IDENTIFIER = [''ro'', ''BIT'', ''foo''], m_INT = None, m_SHARING = True,
      m_offsetDescriptor = [\<lparr>o_INT = ''2'', o_IDENTIFIER = ''INTEGER''\<rparr>]\<rparr>"

definition or_literal :: LogicalBinaryOpContext where
  "or_literal =
     \<lparr>l_addr = [\<lparr>a_IDENTIFIER = Some ''ro'', a_INT = Some ''0''\<rparr>], l_INT = Some ''1'',
      l_AND = False, l_OR = True, l_IOR = False, l_XOR = False\<rparr>"

definition and_literal :: LogicalBinaryOpContext where
  "and_literal =
     \<lparr>l_addr = [\<lparr>a_IDENTIFIER = Some ''ro'', a_INT = Some ''0''\<rparr>], l_INT = Some ''1'',
      l_AND = True, l_OR = False, l_IOR = False, l_XOR = False\<rparr>"

text \<open>
  The display name of an expected token: its literal name, or its symbolic name when the
  literal name is \<open><INVALID>\<close>. The tables are indexed as lists are.
\<close>

definition display_name :: "string list \<Rightarrow> string list \<Rightarrow> int \<Rightarrow> error + string" where
  "display_name literalNames symbolicNames tok =
     (case py_index literalNames tok of
        Inl e \<Rightarrow> Inl e
      | Inr literal_name \<Rightarrow>
          (case py_index symbolicNames tok of
             Inl e \<Rightarrow> Inl e
           | Inr symbolic_name \<Rightarrow>
               Inr (if literal_name = ''<INVALID>'' then symbolic_name else literal_name)))"

text \<open>Two tables of a parser with the tokens \<open>'H'\<close> (1) and \<open>INT\<close> (2).\<close>

definition sample_literalNames :: "string list" where
  "sample_literalNames = [''<INVALID>'', [CHR 0x27] @ ''H'' @ [CHR 0x27], ''<INVALID>'']"

definition sample_symbolicNames :: "string list" where
  "sample_symbolicNames = [''<INVALID>'', ''H'', ''INT'']"

section \<open>Qubit resolution\<close>

lemma is_digit_not_space: "is_digit c \<Longrightarrow> \<not> is_space c"
  by (auto simp: is_digit_def is_space_def)

lemma strip_space_id:
  assumes "\<forall>c\<in>set s. \<not> is_space c"
  shows "strip_space s = s"
proof -
  have a: "dropWhile is_space s = s"
    using assms by (cases s) auto
  have b: "dropWhile is_space (rev s) = rev s"
    using assms by (cases "rev s") (auto simp: in_set_conv_decomp[symmetric] dest: arg_cong[where f=set])
  show ?thesis by (simp add: strip_space_def a b)
qed

lemma grouped_digits_all: "s \<noteq> [] \<Longrightarrow> \<forall>c\<in>set s. is_digit c \<Longrightarrow> grouped_digits s"
  by (induction s rule: grouped_digits.induct) auto

lemma digits_val_snoc: "digits_val (ds @ [d]) = 10 * digits_val ds + digit_val d"
  by (simp add: digits_val_def)

lemma digits_val_sum:
  "digits_val ds = (\<Sum>i<length ds. digit_val (ds ! i) * 10 ^ (length ds - 1 - i))"
proof (induction ds rule: rev_induct)
  case Nil
  then show ?case by (simp add: digits_val_def)
next
  case (snoc d ds)
  have "(\<Sum>i<length ds. digit_val ((ds @ [d]) ! i) * 10 ^ (length (ds @ [d]) - 1 - i))
      = (\<Sum>i<length ds. 10 * (digit_val (ds ! i) * 10 ^ (length ds - 1 - i)))"
    by (rule sum.cong) (auto simp: nth_append Suc_diff_Suc simp flip: power_Suc)
  then show ?case
    by (simp add: digits_val_snoc snoc.IH sum_distrib_left nth_append)
qed

lemma py_int_digits:
  assumes "ds \<noteq> []" "\<forall>c\<in>set ds. is_digit c"
  shows "py_int ds = Inr (int (digits_val ds))"
proof -
  have s: "strip_space ds = ds"
    using assms by (auto intro: strip_space_id dest: is_digit_not_space)
  obtain c cs where ds: "ds = c # cs" using assms by (cases ds) auto
  have c: "is_digit c" using assms ds by simp
  then have ns: "c \<noteq> CHR ''-''" "c \<noteq> CHR ''+''" by (auto simp: is_digit_def)
  have f: "filter (\<lambda>c. c \<noteq> CHR ''_'') ds = ds"
    using assms by (auto simp: is_digit_def filter_id_conv)
  have il: "int_literal ds"
    using assms ds c by (simp add: int_literal_def grouped_digits_all del: grouped_digits.simps)
  show ?thesis
    unfolding py_int_def s using ns il f by (simp add: ds)
qed

lemma py_int_error: "py_int t = Inl e \<Longrightarrow> e = ValueError_int t"
  by (auto simp: py_int_def Let_def split: if_splits prod.splits)

lemma strip_space_hd:
  assumes "t = c # cs" "\<not> is_space c"
  shows "\<exists>cs'. strip_space t = c # cs'"
proof -
  have a: "dropWhile is_space t = c # cs" using assms by simp
  have "dropWhile is_space (rev (c # cs)) \<noteq> []"
    using assms(2) by (simp add: dropWhile_eq_Nil_conv)
  then obtain ys where ys: "rev (dropWhile is_space (rev (c # cs))) = ys" "ys \<noteq> []" by simp
  have "\<exists>zs. c # cs = rev (dropWhile is_space (rev (c # cs))) @ zs"
    by (metis rev_append rev_rev_ident takeWhile_dropWhile_id)
  then obtain zs where "c # cs = ys @ zs" using ys by metis
  then have "hd ys = c" using ys(2) by (cases ys) auto
  then show ?thesis unfolding strip_space_def a using ys by (cases ys) auto
qed

lemma py_int_identifier:
  assumes "is_identifier t"
  shows "py_int t = Inl (ValueError_int t)"
proof -
  obtain c cs where t: "t = c # cs" and c: "is_letter c \<or> c = CHR ''_''"
    using assms by (auto simp: is_identifier_def split: list.splits)
  have nsp: "\<not> is_space c" using c by (auto simp: is_letter_def is_space_def)
  obtain cs' where s: "strip_space t = c # cs'" using strip_space_hd[OF t nsp] by blast
  have nd: "\<not> is_digit c" "c \<noteq> CHR ''-''" "c \<noteq> CHR ''+''"
    using c by (auto simp: is_letter_def is_digit_def)
  show ?thesis
    unfolding py_int_def s using nd by (simp add: int_literal_def)
qed

text \<open>
  Claim C4. A formal qubit node whose text is a decimal integer literal resolves to the
  concrete qubit of exactly that integer (the value of its digits in base ten); a node
  whose text is an identifier resolves to the formal argument of the same text; and the
  resolution of a formal qubit never raises, whatever the node.
\<close>

theorem formalQubit_resolution:
  "(ds \<noteq> [] \<and> (\<forall>c\<in>set ds. is_digit c) \<longrightarrow>
      formalQubit \<lparr>q_getText = ds\<rparr>
        = Inr (Qubit (int (\<Sum>i<length ds. digit_val (ds ! i) * 10 ^ (length ds - 1 - i)))))
   \<and> (is_identifier t \<longrightarrow> formalQubit \<lparr>q_getText = t\<rparr> = Inr (FormalArgument t))
   \<and> (\<exists>r. formalQubit fq = Inr r)"
proof (intro conjI impI)
  assume "ds \<noteq> [] \<and> (\<forall>c\<in>set ds. is_digit c)"
  then show "formalQubit \<lparr>q_getText = ds\<rparr>
        = Inr (Qubit (int (\<Sum>i<length ds. digit_val (ds ! i) * 10 ^ (length ds - 1 - i))))"
    by (simp add: formalQubit_def qubit_def py_int_digits digits_val_sum)
next
  assume "is_identifier t"
  then show "formalQubit \<lparr>q_getText = t\<rparr> = Inr (FormalArgument t)"
    by (simp add: formalQubit_def qubit_def py_int_identifier)
next
  show "\<exists>r. formalQubit fq = Inr r"
    by (cases "py_int (q_getText fq)") (auto simp: formalQubit_def qubit_def dest: py_int_error)
qed

theorem formalQubit_resolution_witness:
  "formalQubit \<lparr>q_getText = ''17''\<rparr> = Inr (Qubit 17)
   \<and> formalQubit \<lparr>q_getText = ''q-1_a''\<rparr> = Inr (FormalArgument ''q-1_a'')"
proof -
  have d: "''17'' \<noteq> [] \<and> (\<forall>c\<in>set ''17''. is_digit c)" by (simp add: is_digit_def)
  have i: "is_identifier ''q-1_a''" by (simp add: is_identifier_def is_letter_def is_digit_def)
  have s: "(\<Sum>i<length ''17''. digit_val (''17'' ! i) * 10 ^ (length ''17'' - 1 - i)) = 17"
    by (simp add: digit_val_def lessThan_Suc numeral_2_eq_2)
  show ?thesis
    using formalQubit_resolution[of "''17''" "''q-1_a''" "\<lparr>q_getText = ''17''\<rparr>"] d i s by simp
qed

section \<open>The two loops of a gate application\<close>

text \<open>
  The loops of \<open>exitGate\<close> in closed form: the first takes the leading qubits, one for
  every modifier that takes a qubit; the second, over the reversed modifiers, builds the
  gate that the modifiers describe when they are read from the left.
\<close>

lemma on_ok_Inr [simp]: "on_ok (Inr x) f = f x"
  by (simp add: on_ok_def)

lemma on_ok_Inl [simp]: "on_ok (Inl e) f = Inl e"
  by (simp add: on_ok_def)

lemma modifier_arity_Cons:
  "modifier_arity (m # ms) = (if takes_qubit m then Suc (modifier_arity ms) else modifier_arity ms)"
  by (simp add: modifier_arity_def)

lemma modifier_arity_snoc:
  "modifier_arity (ms @ [m]) = (if takes_qubit m then Suc (modifier_arity ms) else modifier_arity ms)"
  by (simp add: modifier_arity_def)

lemma window_double: "window params f (Suc j) = window params (f * 2) j"
  by (simp add: window_def mult.assoc)

lemma known_cases:
  assumes "known_modifier m"
  obtains (C) "m = ''CONTROLLED''" "takes_qubit m"
        | (D) "m = ''DAGGER''" "\<not> takes_qubit m"
        | (F) "m = ''FORKED''" "takes_qubit m"
  using assms unfolding known_modifier_def takes_qubit_def by fastforce

lemma wrap_Cons_D: "wrap params f (''DAGGER'' # ms) qs base = Dagger (wrap params f ms qs base)"
  by simp

lemma wrap_Cons_C:
  "wrap params f (''CONTROLLED'' # ms) (q # rest) base = Controlled q (wrap params f ms rest base)"
  by simp

lemma wrap_Cons_F:
  "wrap params f (''FORKED'' # ms) (q # rest) base
     = Forked q (window params f (count_list ms ''FORKED'')) (wrap params f ms rest base)"
  by simp

lemma count_snoc_F: "count_list (ms @ [''FORKED'']) ''FORKED'' = Suc (count_list ms ''FORKED'')"
  by (induction ms) simp_all

lemma count_snoc_C: "count_list (ms @ [''CONTROLLED'']) ''FORKED'' = count_list ms ''FORKED''"
  by (induction ms) simp_all

lemma count_snoc_D: "count_list (ms @ [''DAGGER'']) ''FORKED'' = count_list ms ''FORKED''"
  by (induction ms) simp_all


declare wrap.simps(2) [simp del]

lemma wrap_snoc_D:
  "list_all known_modifier ms \<Longrightarrow> length qs = modifier_arity ms \<Longrightarrow>
   wrap params f (ms @ [''DAGGER'']) qs base = wrap params f ms qs (Dagger base)"
proof (induction ms arbitrary: qs)
  case Nil
  then show ?case by (simp add: wrap_Cons_D)
next
  case (Cons a ms)
  from Cons.prems(1) have ka: "known_modifier a" and kms: "list_all known_modifier ms" by simp_all
  from ka show ?case
  proof (cases rule: known_cases)
    case D
    then have "length qs = modifier_arity ms" using Cons.prems(2) by (simp add: modifier_arity_Cons)
    from Cons.IH[OF kms this] show ?thesis by (simp add: D wrap_Cons_D)
  next
    case C
    then obtain q rest where qs: "qs = q # rest" and len: "length rest = modifier_arity ms"
      using Cons.prems(2) by (cases qs) (simp_all add: modifier_arity_Cons)
    from Cons.IH[OF kms len] show ?thesis by (simp add: C qs wrap_Cons_C)
  next
    case F
    then obtain q rest where qs: "qs = q # rest" and len: "length rest = modifier_arity ms"
      using Cons.prems(2) by (cases qs) (simp_all add: modifier_arity_Cons)
    from Cons.IH[OF kms len] show ?thesis by (simp add: F qs wrap_Cons_F count_snoc_D)
  qed
qed

lemma wrap_snoc_C:
  "list_all known_modifier ms \<Longrightarrow> length qs = Suc (modifier_arity ms) \<Longrightarrow>
   wrap params f (ms @ [''CONTROLLED'']) qs base
     = wrap params f ms (butlast qs) (Controlled (last qs) base)"
proof (induction ms arbitrary: qs)
  case Nil
  then obtain q where "qs = [q]" by (cases qs) (simp_all add: modifier_arity_def)
  then show ?case by (simp add: wrap_Cons_C)
next
  case (Cons a ms)
  from Cons.prems(1) have ka: "known_modifier a" and kms: "list_all known_modifier ms" by simp_all
  from ka show ?case
  proof (cases rule: known_cases)
    case D
    then have "length qs = Suc (modifier_arity ms)"
      using Cons.prems(2) by (simp add: modifier_arity_Cons)
    from Cons.IH[OF kms this] show ?thesis by (simp add: D wrap_Cons_D)
  next
    case C
    then obtain q rest where qs: "qs = q # rest" and len: "length rest = Suc (modifier_arity ms)"
      using Cons.prems(2) by (cases qs) (simp_all add: modifier_arity_Cons)
    then have ne: "rest \<noteq> []" by auto
    from Cons.IH[OF kms len] show ?thesis by (simp add: C qs ne wrap_Cons_C)
  next
    case F
    then obtain q rest where qs: "qs = q # rest" and len: "length rest = Suc (modifier_arity ms)"
      using Cons.prems(2) by (cases qs) (simp_all add: modifier_arity_Cons)
    then have ne: "rest \<noteq> []" by auto
    from Cons.IH[OF kms len] show ?thesis by (simp add: F qs ne wrap_Cons_F count_snoc_C)
  qed
qed

lemma wrap_snoc_F:
  "list_all known_modifier ms \<Longrightarrow> length qs = Suc (modifier_arity ms) \<Longrightarrow>
   wrap params f (ms @ [''FORKED'']) qs base
     = wrap params (f * 2) ms (butlast qs) (Forked (last qs) (window params f 0) base)"
proof (induction ms arbitrary: qs)
  case Nil
  then obtain q where "qs = [q]" by (cases qs) (simp_all add: modifier_arity_def)
  then show ?case by (simp add: wrap_Cons_F)
next
  case (Cons a ms)
  from Cons.prems(1) have ka: "known_modifier a" and kms: "list_all known_modifier ms" by simp_all
  from ka show ?case
  proof (cases rule: known_cases)
    case D
    then have "length qs = Suc (modifier_arity ms)"
      using Cons.prems(2) by (simp add: modifier_arity_Cons)
    from Cons.IH[OF kms this] show ?thesis by (simp add: D wrap_Cons_D)
  next
    case C
    then obtain q rest where qs: "qs = q # rest" and len: "length rest = Suc (modifier_arity ms)"
      using Cons.prems(2) by (cases qs) (simp_all add: modifier_arity_Cons)
    then have ne: "rest \<noteq> []" by auto
    from Cons.IH[OF kms len] show ?thesis by (simp add: C qs ne wrap_Cons_C)
  next
    case F
    then obtain q rest where qs: "qs = q # rest" and len: "length rest = Suc (modifier_arity ms)"
      using Cons.prems(2) by (cases qs) (simp_all add: modifier_arity_Cons)
    then have ne: "rest \<noteq> []" by auto
    from Cons.IH[OF kms len] show ?thesis
      by (simp add: F qs ne wrap_Cons_F count_snoc_F window_double)
  qed
qed


lemma py_index_nat: "i < length xs \<Longrightarrow> py_index xs (int i) = Inr (xs ! i)"
  by (simp add: py_index_def)

lemma modifier_qubits_loop_take:
  "length mq + modifier_arity ms \<le> length qubits \<Longrightarrow> mq = take (length mq) qubits \<Longrightarrow>
   modifier_qubits_loop ms qubits mq = Inr (take (length mq + modifier_arity ms) qubits)"
proof (induction ms arbitrary: mq)
  case Nil
  then show ?case by (simp add: modifier_arity_def)
next
  case (Cons m ms)
  show ?case
  proof (cases "takes_qubit m")
    case True
    then have lt: "length mq < length qubits"
      using Cons.prems(1) by (simp add: modifier_arity_Cons)
    have mq': "mq @ [qubits ! length mq] = take (length (mq @ [qubits ! length mq])) qubits"
      using lt Cons.prems(2) by (simp add: take_Suc_conv_app_nth)
    have "modifier_qubits_loop ms qubits (mq @ [qubits ! length mq])
        = Inr (take (length (mq @ [qubits ! length mq]) + modifier_arity ms) qubits)"
      using Cons.prems(1) True by (intro Cons.IH mq') (simp add: modifier_arity_Cons)
    then show ?thesis
      using True lt by (simp add: takes_qubit_def py_index_nat modifier_arity_Cons)
  next
    case False
    then show ?thesis
      using Cons by (simp add: takes_qubit_def modifier_arity_Cons)
  qed
qed

lemma apply_modifiers_D:
  "apply_modifiers params (''DAGGER'' # ms) g mq fo = apply_modifiers params ms (Dagger g) mq fo"
  by simp

lemma apply_modifiers_C:
  "mq \<noteq> [] \<Longrightarrow> apply_modifiers params (''CONTROLLED'' # ms) g mq fo
     = apply_modifiers params ms (Controlled (last mq) g) (butlast mq) fo"
  by (simp add: pop_def)

lemma apply_modifiers_F:
  "mq \<noteq> [] \<Longrightarrow> apply_modifiers params (''FORKED'' # ms) g mq fo
     = apply_modifiers params ms (Forked (last mq) (window params fo 0) g) (butlast mq) (fo * 2)"
  by (simp add: pop_def window_def)

declare apply_modifiers.simps(2) [simp del]

lemma apply_modifiers_wrap:
  "list_all known_modifier ms \<Longrightarrow> length mq = modifier_arity ms \<Longrightarrow>
   apply_modifiers params (rev ms) g mq fo = Inr (wrap params fo ms mq g)"
proof (induction ms arbitrary: g mq fo rule: rev_induct)
  case Nil
  then show ?case by simp
next
  case (snoc m ms)
  from snoc.prems(1) have km: "known_modifier m" and kms: "list_all known_modifier ms" by simp_all
  from km show ?case
  proof (cases rule: known_cases)
    case D
    then have len: "length mq = modifier_arity ms"
      using snoc.prems(2) by (simp add: modifier_arity_snoc)
    show ?thesis
      by (simp add: D apply_modifiers_D snoc.IH[OF kms len] wrap_snoc_D[OF kms len])
  next
    case C
    then have len: "length mq = Suc (modifier_arity ms)"
      using snoc.prems(2) by (simp add: modifier_arity_snoc)
    then have ne: "mq \<noteq> []" and len': "length (butlast mq) = modifier_arity ms" by auto
    show ?thesis
      by (simp add: C apply_modifiers_C[OF ne] snoc.IH[OF kms len'] wrap_snoc_C[OF kms len])
  next
    case F
    then have len: "length mq = Suc (modifier_arity ms)"
      using snoc.prems(2) by (simp add: modifier_arity_snoc)
    then have ne: "mq \<noteq> []" and len': "length (butlast mq) = modifier_arity ms" by auto
    show ?thesis
      by (simp add: F apply_modifiers_F[OF ne] snoc.IH[OF kms len'] wrap_snoc_F[OF kms len])
  qed
qed

lemma build_gate_wrap:
  assumes "list_all known_modifier mods"
      and "modifier_arity mods \<le> length qubits"
      and "base_gate QG name (take (length params div 2 ^ count_list mods ''FORKED'') params)
             (drop (modifier_arity mods) qubits) = Inr base"
  shows "build_gate QG name mods params qubits
          = Inr (wrap params (length params div 2 ^ count_list mods ''FORKED'') mods
                   (take (modifier_arity mods) qubits) base)"
proof -
  have mq: "modifier_qubits_loop mods qubits [] = Inr (take (modifier_arity mods) qubits)"
    using modifier_qubits_loop_take[of "[]" mods qubits] assms(2) by simp
  have len: "length (take (modifier_arity mods) qubits) = modifier_arity mods"
    using assms(2) by simp
  show ?thesis
    unfolding build_gate_def mq on_ok_Inr Let_def len assms(3)
    by (rule apply_modifiers_wrap[OF assms(1) len])
qed

lemma fork_groups_wrap:
  "list_all known_modifier ms \<Longrightarrow> length qs = modifier_arity ms \<Longrightarrow>
   fork_groups (wrap params f ms qs base)
     = fork_groups base @ map (window params f) [0..<count_list ms ''FORKED'']"
proof (induction ms arbitrary: qs)
  case Nil
  then show ?case by simp
next
  case (Cons a ms)
  from Cons.prems(1) have ka: "known_modifier a" and kms: "list_all known_modifier ms" by simp_all
  from ka show ?case
  proof (cases rule: known_cases)
    case D
    then have "length qs = modifier_arity ms" using Cons.prems(2) by (simp add: modifier_arity_Cons)
    from Cons.IH[OF kms this] show ?thesis by (simp add: D wrap_Cons_D)
  next
    case C
    then obtain q rest where qs: "qs = q # rest" and len: "length rest = modifier_arity ms"
      using Cons.prems(2) by (cases qs) (simp_all add: modifier_arity_Cons)
    from Cons.IH[OF kms len] show ?thesis by (simp add: C qs wrap_Cons_C)
  next
    case F
    then obtain q rest where qs: "qs = q # rest" and len: "length rest = modifier_arity ms"
      using Cons.prems(2) by (cases qs) (simp_all add: modifier_arity_Cons)
    from Cons.IH[OF kms len] show ?thesis by (simp add: F qs wrap_Cons_F)
  qed
qed

lemma wrappers_wrap:
  "list_all known_modifier ms \<Longrightarrow> length qs = modifier_arity ms \<Longrightarrow>
   wrappers (wrap params f ms qs base) = ms @ wrappers base"
proof (induction ms arbitrary: qs)
  case Nil
  then show ?case by simp
next
  case (Cons a ms)
  from Cons.prems(1) have ka: "known_modifier a" and kms: "list_all known_modifier ms" by simp_all
  from ka show ?case
  proof (cases rule: known_cases)
    case D
    then have "length qs = modifier_arity ms" using Cons.prems(2) by (simp add: modifier_arity_Cons)
    from Cons.IH[OF kms this] show ?thesis by (simp add: D wrap_Cons_D)
  next
    case C
    then obtain q rest where qs: "qs = q # rest" and len: "length rest = modifier_arity ms"
      using Cons.prems(2) by (cases qs) (simp_all add: modifier_arity_Cons)
    from Cons.IH[OF kms len] show ?thesis by (simp add: C qs wrap_Cons_C)
  next
    case F
    then obtain q rest where qs: "qs = q # rest" and len: "length rest = modifier_arity ms"
      using Cons.prems(2) by (cases qs) (simp_all add: modifier_arity_Cons)
    from Cons.IH[OF kms len] show ?thesis by (simp add: F qs wrap_Cons_F)
  qed
qed

lemma concat_windows:
  "concat (take f params # map (window params f) [0..<c]) = take (f * 2 ^ c) params"
proof (induction c)
  case 0
  then show ?case by simp
next
  case (Suc c)
  have e: "f * 2 ^ Suc c = f * 2 ^ c + f * 2 ^ c" by simp
  have "concat (take f params # map (window params f) [0..<Suc c])
      = concat (take f params # map (window params f) [0..<c]) @ window params f c"
    by simp
  also have "\<dots> = take (f * 2 ^ c) params @ window params f c"
    by (simp only: Suc.IH)
  also have "\<dots> = take (f * 2 ^ c + f * 2 ^ c) params"
    by (simp only: window_def take_add)
  finally show ?case by (simp only: e)
qed

lemma window_length:
  assumes "j < c" "f * 2 ^ c \<le> length params"
  shows "length (window params f j) = f * 2 ^ j"
proof -
  have "(2::nat) ^ Suc j \<le> 2 ^ c" using assms(1) by (intro power_increasing) auto
  then have "f * 2 ^ Suc j \<le> f * 2 ^ c" by (rule mult_le_mono2)
  moreover have "f * 2 ^ Suc j = f * 2 ^ j + f * 2 ^ j" by simp
  ultimately have "f * 2 ^ j + f * 2 ^ j \<le> length params" using assms(2) by linarith
  then show ?thesis by (simp add: window_def)
qed

section \<open>Gate applications\<close>

lemma exitGate_eq:
  "map_raise (param np) (g_param ctx) = Inr params \<Longrightarrow>
   map_raise qubit (g_qubit ctx) = Inr qubits \<Longrightarrow>
   exitGate np QG ctx st
     = on_ok (build_gate QG (g_name ctx) (g_modifier ctx) params qubits)
         (\<lambda>gate. Inr (append_result (GateInstr gate) st))"
  by (simp add: exitGate_def Let_def)

lemma append_result_inject: "append_result i st = append_result j st \<Longrightarrow> i = j"
proof -
  assume "append_result i st = append_result j st"
  then have "result (append_result i st) = result (append_result j st)" by simp
  then show "i = j" by (simp add: append_result_def)
qed

lemma exitGate_wrap:
  assumes "map_raise (param np) (g_param ctx) = Inr params"
      and "map_raise qubit (g_qubit ctx) = Inr qubits"
      and "list_all known_modifier (g_modifier ctx)"
      and "modifier_arity (g_modifier ctx) \<le> length qubits"
      and "f = length params div 2 ^ count_list (g_modifier ctx) ''FORKED''"
      and "base_gate QG (g_name ctx) (take f params)
             (drop (modifier_arity (g_modifier ctx)) qubits) = Inr base"
  shows "exitGate np QG ctx st
           = Inr (append_result
               (GateInstr (wrap params f (g_modifier ctx)
                             (take (modifier_arity (g_modifier ctx)) qubits) base)) st)"
  using build_gate_wrap[OF assms(3) assms(4), of QG "g_name ctx" params base] assms(5,6)
  by (simp add: exitGate_eq[OF assms(1,2)])

lemma py_int_0: "py_int ''0'' = Inr 0" by code_simp

lemma py_int_1: "py_int ''1'' = Inr 1" by code_simp

text \<open>
  Claim C2. The modifiers of a gate application are applied in the reverse of their
  written order: the gate built is the one the modifiers describe when read from the
  left, the leftmost modifier outermost, and each \<open>CONTROLLED\<close> or \<open>FORKED\<close> takes the
  modifier qubit assigned last among those left. The wrappers of the gate, outermost
  first, are the modifiers as written; so \<open>DAGGER CONTROLLED\<close> builds the adjoint of the
  controlled gate, \<open>CONTROLLED DAGGER\<close> the controlled adjoint, and the two differ.
\<close>

theorem exitGate_modifier_order:
  assumes "map_raise (param np) (g_param ctx) = Inr params"
      and "map_raise qubit (g_qubit ctx) = Inr qubits"
      and "list_all known_modifier (g_modifier ctx)"
      and "modifier_arity (g_modifier ctx) \<le> length qubits"
      and "f = length params div 2 ^ count_list (g_modifier ctx) ''FORKED''"
      and "base_gate QG (g_name ctx) (take f params)
             (drop (modifier_arity (g_modifier ctx)) qubits) = Inr base"
  shows "exitGate np QG ctx st
           = Inr (append_result
               (GateInstr (wrap params f (g_modifier ctx)
                             (take (modifier_arity (g_modifier ctx)) qubits) base)) st)
       \<and> wrappers (wrap params f (g_modifier ctx)
                      (take (modifier_arity (g_modifier ctx)) qubits) base)
           = g_modifier ctx @ wrappers base
       \<and> (g_modifier ctx = [''DAGGER'', ''CONTROLLED''] \<longrightarrow>
            exitGate np QG ctx st
              = Inr (append_result (GateInstr (Dagger (Controlled (hd qubits) base))) st)
          \<and> exitGate np QG (ctx\<lparr>g_modifier := [''CONTROLLED'', ''DAGGER'']\<rparr>) st
              = Inr (append_result (GateInstr (Controlled (hd qubits) (Dagger base))) st)
          \<and> exitGate np QG ctx st
              \<noteq> exitGate np QG (ctx\<lparr>g_modifier := [''CONTROLLED'', ''DAGGER'']\<rparr>) st)"
proof (intro conjI impI)
  have len: "length (take (modifier_arity (g_modifier ctx)) qubits) = modifier_arity (g_modifier ctx)"
    using assms(4) by simp
  show main: "exitGate np QG ctx st
           = Inr (append_result
               (GateInstr (wrap params f (g_modifier ctx)
                             (take (modifier_arity (g_modifier ctx)) qubits) base)) st)"
    by (rule exitGate_wrap[OF assms])
  show "wrappers (wrap params f (g_modifier ctx)
                      (take (modifier_arity (g_modifier ctx)) qubits) base)
           = g_modifier ctx @ wrappers base"
    by (rule wrappers_wrap[OF assms(3) len])
  assume dc: "g_modifier ctx = [''DAGGER'', ''CONTROLLED'']"
  have ar: "modifier_arity [''DAGGER'', ''CONTROLLED''] = 1"
           "modifier_arity [''CONTROLLED'', ''DAGGER''] = 1"
    by (simp_all add: modifier_arity_def takes_qubit_def)
  obtain q rest where qs: "qubits = q # rest"
    using assms(4) dc ar by (cases qubits) simp_all
  show one: "exitGate np QG ctx st
              = Inr (append_result (GateInstr (Dagger (Controlled (hd qubits) base))) st)"
    using main by (simp add: dc ar qs wrap_Cons_D wrap_Cons_C)
  let ?ctx = "ctx\<lparr>g_modifier := [''CONTROLLED'', ''DAGGER'']\<rparr>"
  have k': "list_all known_modifier [''CONTROLLED'', ''DAGGER'']"
    by (simp add: known_modifier_def)
  have a': "modifier_arity [''CONTROLLED'', ''DAGGER''] \<le> length qubits"
    by (simp add: ar qs)
  have b': "base_gate QG (g_name ctx)
              (take (length params div 2 ^ count_list [''CONTROLLED'', ''DAGGER''] ''FORKED'') params)
              (drop (modifier_arity [''CONTROLLED'', ''DAGGER'']) qubits) = Inr base"
    using assms(5,6) by (simp add: dc ar)
  have e: "exitGate np QG ?ctx st
     = on_ok (build_gate QG (g_name ctx) [''CONTROLLED'', ''DAGGER''] params qubits)
         (\<lambda>gate. Inr (append_result (GateInstr gate) st))"
    using exitGate_eq[of np ?ctx params qubits QG st] assms(1,2) by simp
  show two: "exitGate np QG ?ctx st
              = Inr (append_result (GateInstr (Controlled (hd qubits) (Dagger base))) st)"
    unfolding e build_gate_wrap[OF k' a' b']
    by (simp add: ar qs wrap_Cons_D wrap_Cons_C)
  show "exitGate np QG ctx st \<noteq> exitGate np QG ?ctx st"
    unfolding one two by (auto dest: append_result_inject)
qed

theorem exitGate_modifier_order_witness:
  "exitGate term_host rx_catalog dagger_controlled_x init
     = Inr \<lparr>result = [GateInstr (Dagger (Controlled (Qubit 0) (Gate ''X'' [] [Qubit 1])))],
            previous_result = None\<rparr>
   \<and> exitGate term_host rx_catalog (dagger_controlled_x\<lparr>g_modifier := [''CONTROLLED'', ''DAGGER'']\<rparr>) init
     = Inr \<lparr>result = [GateInstr (Controlled (Qubit 0) (Dagger (Gate ''X'' [] [Qubit 1])))],
            previous_result = None\<rparr>
   \<and> exitGate term_host rx_catalog dagger_controlled_x init
       \<noteq> exitGate term_host rx_catalog (dagger_controlled_x\<lparr>g_modifier := [''CONTROLLED'', ''DAGGER'']\<rparr>) init"
proof -
  have p: "map_raise (param term_host) (g_param dagger_controlled_x) = Inr []"
    by (simp add: dagger_controlled_x_def)
  have q: "map_raise qubit (g_qubit dagger_controlled_x) = Inr [Qubit 0, Qubit 1]"
    by (simp add: dagger_controlled_x_def qubit_def py_int_0 py_int_1)
  have m: "g_modifier dagger_controlled_x = [''DAGGER'', ''CONTROLLED'']"
    by (simp add: dagger_controlled_x_def)
  have k: "list_all known_modifier (g_modifier dagger_controlled_x)"
    by (simp add: m known_modifier_def)
  have ar: "modifier_arity (g_modifier dagger_controlled_x) = 1"
    by (simp add: m modifier_arity_def takes_qubit_def)
  have a: "modifier_arity (g_modifier dagger_controlled_x) \<le> length [Qubit 0, Qubit 1]"
    by (simp add: ar)
  have f: "(0::nat) = length ([]::num_term expr list) div 2 ^ count_list (g_modifier dagger_controlled_x) ''FORKED''"
    by simp
  have b: "base_gate rx_catalog (g_name dagger_controlled_x) (take 0 [])
             (drop (modifier_arity (g_modifier dagger_controlled_x)) [Qubit 0, Qubit 1])
           = Inr (Gate ''X'' [] [Qubit 1])"
    by (simp add: base_gate_def rx_catalog_def dagger_controlled_x_def modifier_arity_def
        takes_qubit_def)
  from exitGate_modifier_order[OF p q k a f b, of init]
  have "exitGate term_host rx_catalog dagger_controlled_x init
          = Inr (append_result (GateInstr (Dagger (Controlled (hd [Qubit 0, Qubit 1])
                  (Gate ''X'' [] [Qubit 1])))) init)
      \<and> exitGate term_host rx_catalog (dagger_controlled_x\<lparr>g_modifier := [''CONTROLLED'', ''DAGGER'']\<rparr>) init
          = Inr (append_result (GateInstr (Controlled (hd [Qubit 0, Qubit 1])
                  (Dagger (Gate ''X'' [] [Qubit 1])))) init)
      \<and> exitGate term_host rx_catalog dagger_controlled_x init
          \<noteq> exitGate term_host rx_catalog (dagger_controlled_x\<lparr>g_modifier := [''CONTROLLED'', ''DAGGER'']\<rparr>) init"
    using m by blast
  then show ?thesis by (simp add: append_result_def init_def)
qed


text \<open>
  Claim C1. In a gate application with parameters \<open>params\<close> and \<open>c\<close> modifiers
  \<open>FORKED\<close>, \<open>forked_offset\<close> is \<open>len(params) >> c\<close>, the base gate is built from the first
  \<open>forked_offset\<close> parameters, and the \<open>FORKED\<close> wrappers take, from the innermost to the
  outermost, the windows of parameters that follow: the j-th window starts where the
  windows before it end and is as long as all that precedes it, so that \<open>forked_offset\<close>
  doubles with each \<open>FORKED\<close>. With one \<open>FORKED\<close> and two parameters, as in
  \<open>FORKED RX(0.5, 1.5) 0 1\<close>, \<open>forked_offset\<close> is 1, the base gate has the first parameter
  and the fork has the second.
\<close>

theorem exitGate_forked_parameters:
  assumes "map_raise (param np) (g_param ctx) = Inr params"
      and "map_raise qubit (g_qubit ctx) = Inr qubits"
      and "list_all known_modifier (g_modifier ctx)"
      and "modifier_arity (g_modifier ctx) \<le> length qubits"
      and "c = count_list (g_modifier ctx) ''FORKED''"
      and "forked_offset = length params div 2 ^ c"
      and "base_gate QG (g_name ctx) (take forked_offset params)
             (drop (modifier_arity (g_modifier ctx)) qubits) = Inr base"
  shows "\<exists>g. exitGate np QG ctx st = Inr (append_result (GateInstr g) st)
           \<and> g = wrap params forked_offset (g_modifier ctx)
                   (take (modifier_arity (g_modifier ctx)) qubits) base
           \<and> fork_groups g = fork_groups base @ map (window params forked_offset) [0..<c]
           \<and> (\<forall>j<c. window params forked_offset j
                       = take (forked_offset * 2 ^ j) (drop (forked_offset * 2 ^ j) params)
                     \<and> length (window params forked_offset j) = forked_offset * 2 ^ j)
           \<and> concat (take forked_offset params # map (window params forked_offset) [0..<c])
               = take (forked_offset * 2 ^ c) params
           \<and> (QG (g_name ctx) = None \<longrightarrow>
                base = Gate (g_name ctx) (take forked_offset params)
                         (drop (modifier_arity (g_modifier ctx)) qubits))
           \<and> (g_modifier ctx = [''FORKED''] \<longrightarrow>
                (\<forall>a b. params = [a, b] \<longrightarrow>
                   forked_offset = 1 \<and> take forked_offset params = [a]
                   \<and> fork_groups g = fork_groups base @ [[b]]))"
proof -
  let ?ms = "g_modifier ctx"
  let ?g = "wrap params forked_offset ?ms (take (modifier_arity ?ms) qubits) base"
  have len: "length (take (modifier_arity ?ms) qubits) = modifier_arity ?ms"
    using assms(4) by simp
  have b: "base_gate QG (g_name ctx)
             (take (length params div 2 ^ count_list ?ms ''FORKED'') params)
             (drop (modifier_arity ?ms) qubits) = Inr base"
    using assms(5,6,7) by simp
  have run: "exitGate np QG ctx st = Inr (append_result (GateInstr ?g) st)"
    using assms(5,6) by (intro exitGate_wrap[OF assms(1-4) _ assms(7)]) simp
  have groups: "fork_groups ?g = fork_groups base @ map (window params forked_offset) [0..<c]"
    unfolding assms(5) by (rule fork_groups_wrap[OF assms(3) len])
  have bound: "forked_offset * 2 ^ c \<le> length params"
    unfolding assms(6) by simp
  have windows: "\<forall>j<c. window params forked_offset j
                       = take (forked_offset * 2 ^ j) (drop (forked_offset * 2 ^ j) params)
                     \<and> length (window params forked_offset j) = forked_offset * 2 ^ j"
    using window_length[OF _ bound] by (simp add: window_def)
  have generic: "QG (g_name ctx) = None \<longrightarrow>
                base = Gate (g_name ctx) (take forked_offset params)
                         (drop (modifier_arity ?ms) qubits)"
    using assms(7) by (auto simp: base_gate_def)
  have example: "?ms = [''FORKED''] \<longrightarrow>
                (\<forall>a b. params = [a, b] \<longrightarrow>
                   forked_offset = 1 \<and> take forked_offset params = [a]
                   \<and> fork_groups ?g = fork_groups base @ [[b]])"
  proof (intro impI allI)
    fix a b
    assume m: "?ms = [''FORKED'']" and ps: "params = [a, b]"
    have c1: "c = 1" using assms(5) m by simp
    then have f1: "forked_offset = 1" using assms(6) ps by simp
    show "forked_offset = 1 \<and> take forked_offset params = [a]
            \<and> fork_groups ?g = fork_groups base @ [[b]]"
      using groups by (simp add: c1 f1 ps window_def)
  qed
  show ?thesis
    apply (rule exI[of _ ?g])
    apply (intro conjI)
          apply (rule run)
         apply (rule refl)
        apply (rule groups)
       apply (rule windows)
      apply (rule concat_windows)
     apply (rule generic)
    apply (rule example)
    done
qed

theorem exitGate_forked_parameters_witness:
  "exitGate term_host rx_catalog forked_rx init
     = Inr \<lparr>result =
              [GateInstr (Forked (Qubit 0) [Number (NOp Mul (NInt 1) (NFloat ''1.5''))]
                 (Gate ''RX'' [Number (NOp Mul (NInt 1) (NFloat ''0.5''))] [Qubit 1]))],
            previous_result = None\<rparr>
   \<and> fork_groups (Forked (Qubit 0) [Number (NOp Mul (NInt 1) (NFloat ''1.5''))]
                 (Gate ''RX'' [Number (NOp Mul (NInt 1) (NFloat ''0.5''))] [Qubit 1]))
       = [[Number (NOp Mul (NInt 1) (NFloat ''1.5''))]]"
proof -
  let ?a = "Number (NOp Mul (NInt 1) (NFloat ''0.5''))"
  let ?b = "Number (NOp Mul (NInt 1) (NFloat ''1.5''))"
  have p: "map_raise (param term_host) (g_param forked_rx) = Inr [?a, ?b]"
    by (simp add: forked_rx_def float_param_def param_def number_def realN_def sign_def
        term_host_def)
  have q: "map_raise qubit (g_qubit forked_rx) = Inr [Qubit 0, Qubit 1]"
    by (simp add: forked_rx_def qubit_def py_int_0 py_int_1)
  have m: "g_modifier forked_rx = [''FORKED'']"
    by (simp add: forked_rx_def)
  have k: "list_all known_modifier (g_modifier forked_rx)"
    by (simp add: m known_modifier_def)
  have a: "modifier_arity (g_modifier forked_rx) \<le> length [Qubit 0, Qubit 1]"
    by (simp add: m modifier_arity_def takes_qubit_def)
  have c: "(1::nat) = count_list (g_modifier forked_rx) ''FORKED''"
    by (simp add: m)
  have f: "(1::nat) = length [?a, ?b] div 2 ^ 1"
    by simp
  have b: "base_gate rx_catalog (g_name forked_rx) (take 1 [?a, ?b])
             (drop (modifier_arity (g_modifier forked_rx)) [Qubit 0, Qubit 1])
           = Inr (Gate ''RX'' [?a] [Qubit 1])"
    by (simp add: base_gate_def rx_catalog_def forked_rx_def modifier_arity_def takes_qubit_def)
  from exitGate_forked_parameters[OF p q k a c f b, of init]
  obtain g where run: "exitGate term_host rx_catalog forked_rx init
                         = Inr (append_result (GateInstr g) init)"
    and groups: "fork_groups g = fork_groups (Gate ''RX'' [?a] [Qubit 1]) @ [[?b]]"
    using m by auto
  have "exitGate term_host rx_catalog forked_rx init
          = Inr (append_result (GateInstr (Forked (Qubit 0) [?b] (Gate ''RX'' [?a] [Qubit 1]))) init)"
    using exitGate_wrap[OF p q k a _ b, of init]
    by (simp add: m modifier_arity_def takes_qubit_def wrap_Cons_F window_def)
  with run have g: "g = Forked (Qubit 0) [?b] (Gate ''RX'' [?a] [Qubit 1])"
    by (auto dest: append_result_inject)
  from run groups show ?thesis
    unfolding g by (simp add: append_result_def init_def)
qed

section \<open>Scoped definitions\<close>

lemma formalQubit_returns: "\<exists>r. formalQubit fq = Inr r"
  by (cases "py_int (q_getText fq)") (auto simp: formalQubit_def qubit_def dest: py_int_error)

lemma map_raise_returns:
  assumes "\<And>x. \<exists>y. f x = Inr y"
  shows "\<exists>ys. map_raise f xs = Inr ys"
proof (induction xs)
  case Nil
  then show ?case by simp
next
  case (Cons x xs)
  obtain y where "f x = Inr y" using assms by blast
  moreover obtain ys where "map_raise f xs = Inr ys" using Cons by blast
  ultimately show ?case by simp
qed

lemma formalQubits_return: "\<exists>qubits. map_raise formalQubit xs = Inr qubits"
  by (rule map_raise_returns) (rule formalQubit_returns)

lemma on_ok_Inr_iff: "on_ok r f = Inr y \<longleftrightarrow> (\<exists>x. r = Inr x \<and> f x = Inr y)"
  by (cases r) simp_all

lemma run_handlers_frame:
  "list_all appends_one hs \<Longrightarrow> run_handlers hs s0 = Inr s \<Longrightarrow>
   previous_result s = previous_result s0 \<and> (\<exists>body. result s = result s0 @ body)"
proof (induction hs arbitrary: s0)
  case Nil
  then show ?case by simp
next
  case (Cons h hs)
  from Cons.prems(2) obtain s1 where h: "h s0 = Inr s1" and r: "run_handlers hs s1 = Inr s"
    by (cases "h s0") simp_all
  from Cons.prems(1) h obtain i where s1: "s1 = append_result i s0"
    by (auto simp: appends_one_def)
  from Cons.IH[OF _ r] Cons.prems(1)
  have "previous_result s = previous_result s1 \<and> (\<exists>body. result s = result s1 @ body)" by simp
  then show ?case by (auto simp: s1 append_result_def)
qed

lemma exitGate_appends_one: "appends_one (exitGate np QG ctx)"
  unfolding appends_one_def exitGate_def Let_def
  by (auto simp: on_ok_Inr_iff)

lemma check_mrefs_filter:
  "check_mrefs name ps =
     (case filter (\<lambda>p. contained_mrefs p \<noteq> {}) ps of
        [] \<Rightarrow> Inr ()
      | p # _ \<Rightarrow> Inl (ValueError_mrefs (contained_mrefs p) name))"
  by (induction ps) (simp_all add: Let_def)

lemma exitDefCalibration_eq:
  assumes "map_raise (param np) (cal_param ctx) = Inr parameters"
      and "check_mrefs (cal_name ctx) parameters = Inr ()"
      and "map_raise formalQubit (cal_formalQubit ctx) = Inr qubits"
      and "previous_result s = Some outer"
  shows "exitDefCalibration np ctx s
           = Inr \<lparr>result = outer @ [DefCalibration (cal_name ctx) parameters qubits (result s)],
                  previous_result = None\<rparr>"
  using assms by (simp add: exitDefCalibration_def Let_def)

lemma join_Cons: "join sep (x # xs) = x @ concat (map (\<lambda>t. sep @ t) xs)"
  by (induction xs arbitrary: x) simp_all

lemma map_raise_nth:
  "map_raise f xs = Inr ys \<Longrightarrow>
   length ys = length xs \<and> (\<forall>i<length xs. f (xs ! i) = Inr (ys ! i))"
proof (induction xs arbitrary: ys)
  case Nil
  then show ?case by simp
next
  case (Cons x xs)
  from Cons.prems obtain y ys' where y: "f x = Inr y" and r: "map_raise f xs = Inr ys'"
    and ys: "ys = y # ys'"
    by (auto split: sum.splits)
  from Cons.IH[OF r] have l: "length ys' = length xs"
    and n: "\<And>i. i < length xs \<Longrightarrow> f (xs ! i) = Inr (ys' ! i)"
    by simp_all
  show ?case
  proof (intro conjI allI impI)
    show "length ys = length (x # xs)" by (simp add: ys l)
  next
    fix i assume "i < length (x # xs)"
    then show "f ((x # xs) ! i) = Inr (ys ! i)"
      by (cases i) (simp_all add: ys y n)
  qed
qed

lemma exitDefCircuit_eq:
  assumes "map_raise out (result s) = Inr outs"
      and "previous_result s = Some outer"
  shows "exitDefCircuit out circ s
           = Inr \<lparr>result = outer
                     @ [RawInstr
                          (''DEFCIRCUIT '' @ dc_name circ
                           @ (if dc_variable circ = [] then []
                              else ''('' @ join '', '' (dc_variable circ) @ '')'')
                           @ (if dc_qubitVariable circ = [] then [] else '' '')
                           @ join '' '' (dc_qubitVariable circ) @ '':''
                           @ concat (map (\<lambda>t. CHR 0x0A # ''    '' @ t) outs))],
                  previous_result = None\<rparr>"
  using assms by (simp add: exitDefCircuit_def Let_def join_Cons)

text \<open>
  Claim C3. Entering a calibration, circuit or measure-calibration definition saves the
  current buffer and starts an empty one. Whatever handlers run in the body (each
  appending the instruction it builds), exiting restores the saved buffer with exactly one
  new instruction at its end: the definition, which holds the instructions of the body.
  A calibration and a measure calibration hold the body's instructions themselves. A
  circuit is the raw instruction whose text is the header of the definition (its name, its
  variables between parentheses when it has any, and its qubit variables) followed by the
  text of every instruction of the body, in order, each on a line of its own behind four
  spaces. The enclosing buffer is then its contents before the entry followed by that one
  instruction, and no instruction of the body is in it.
\<close>

theorem definition_scope_restores_buffer:
  assumes "list_all appends_one hs"
  shows "(run_handlers hs (enterDefCalibration st) = Inr s
            \<and> map_raise (param np) (cal_param cal) = Inr parameters
            \<and> check_mrefs (cal_name cal) parameters = Inr ()
          \<longrightarrow> (\<exists>qubits body.
                 exitDefCalibration np cal s
                   = Inr \<lparr>result = result st
                             @ [DefCalibration (cal_name cal) parameters qubits body],
                          previous_result = None\<rparr>
                 \<and> body = result s
                 \<and> map_raise formalQubit (cal_formalQubit cal) = Inr qubits))
       \<and> (run_handlers hs (enterDefCircuit st) = Inr s \<and> map_raise out (result s) = Inr outs
          \<longrightarrow> exitDefCircuit out circ s
                = Inr \<lparr>result = result st
                          @ [RawInstr
                               (''DEFCIRCUIT '' @ dc_name circ
                                @ (if dc_variable circ = [] then []
                                   else ''('' @ join '', '' (dc_variable circ) @ '')'')
                                @ (if dc_qubitVariable circ = [] then [] else '' '')
                                @ join '' '' (dc_qubitVariable circ) @ '':''
                                @ concat (map (\<lambda>t. CHR 0x0A # ''    '' @ t) outs))],
                       previous_result = None\<rparr>
              \<and> length outs = length (result s)
              \<and> (\<forall>i<length (result s). out (result s ! i) = Inr (outs ! i)))
       \<and> (run_handlers hs (enterDefMeasCalibration st) = Inr s
          \<longrightarrow> (\<exists>q body.
                 exitDefMeasCalibration meas s
                   = Inr \<lparr>result = result st
                             @ [DefMeasureCalibration q
                                  (map_option FormalArgument (mc_name meas)) body],
                          previous_result = None\<rparr>
                 \<and> body = result s
                 \<and> formalQubit (mc_formalQubit meas) = Inr q))
       \<and> result (enterDefCalibration st) = [] \<and> result (enterDefCircuit st) = []
       \<and> result (enterDefMeasCalibration st) = []"
proof (intro conjI impI)
  assume a: "run_handlers hs (enterDefCalibration st) = Inr s
            \<and> map_raise (param np) (cal_param cal) = Inr parameters
            \<and> check_mrefs (cal_name cal) parameters = Inr ()"
  from run_handlers_frame[OF assms] a
  have prev: "previous_result s = Some (result st)"
    by (auto simp: enterDefCalibration_def)
  obtain qubits where q: "map_raise formalQubit (cal_formalQubit cal) = Inr qubits"
    using formalQubits_return by blast
  from a q exitDefCalibration_eq[OF _ _ q prev, of np parameters]
  show "\<exists>qubits body.
          exitDefCalibration np cal s
            = Inr \<lparr>result = result st @ [DefCalibration (cal_name cal) parameters qubits body],
                   previous_result = None\<rparr>
          \<and> body = result s
          \<and> map_raise formalQubit (cal_formalQubit cal) = Inr qubits"
    by blast
next
  assume a: "run_handlers hs (enterDefCircuit st) = Inr s \<and> map_raise out (result s) = Inr outs"
  from run_handlers_frame[OF assms] a
  have prev: "previous_result s = Some (result st)"
    by (auto simp: enterDefCircuit_def)
  from a have o: "map_raise out (result s) = Inr outs" by simp
  show "exitDefCircuit out circ s
          = Inr \<lparr>result = result st
                    @ [RawInstr
                         (''DEFCIRCUIT '' @ dc_name circ
                          @ (if dc_variable circ = [] then []
                             else ''('' @ join '', '' (dc_variable circ) @ '')'')
                          @ (if dc_qubitVariable circ = [] then [] else '' '')
                          @ join '' '' (dc_qubitVariable circ) @ '':''
                          @ concat (map (\<lambda>t. CHR 0x0A # ''    '' @ t) outs))],
                 previous_result = None\<rparr>"
    by (rule exitDefCircuit_eq[OF o prev])
next
  assume a: "run_handlers hs (enterDefCircuit st) = Inr s \<and> map_raise out (result s) = Inr outs"
  then show "length outs = length (result s)"
    using map_raise_nth[of out "result s" outs] by simp
next
  assume a: "run_handlers hs (enterDefCircuit st) = Inr s \<and> map_raise out (result s) = Inr outs"
  then show "\<forall>i<length (result s). out (result s ! i) = Inr (outs ! i)"
    using map_raise_nth[of out "result s" outs] by simp
next
  assume a: "run_handlers hs (enterDefMeasCalibration st) = Inr s"
  from run_handlers_frame[OF assms a]
  have prev: "previous_result s = Some (result st)"
    by (auto simp: enterDefMeasCalibration_def)
  obtain q where q: "formalQubit (mc_formalQubit meas) = Inr q"
    using formalQubit_returns by blast
  have "exitDefMeasCalibration meas s
          = Inr \<lparr>result = result st
                    @ [DefMeasureCalibration q (map_option FormalArgument (mc_name meas)) (result s)],
                 previous_result = None\<rparr>"
    using q prev by (cases "mc_name meas") (simp_all add: exitDefMeasCalibration_def Let_def)
  with q show "\<exists>q body.
                 exitDefMeasCalibration meas s
                   = Inr \<lparr>result = result st
                             @ [DefMeasureCalibration q
                                  (map_option FormalArgument (mc_name meas)) body],
                          previous_result = None\<rparr>
                 \<and> body = result s
                 \<and> formalQubit (mc_formalQubit meas) = Inr q"
    by blast
qed (simp_all add: enterDefCalibration_def enterDefCircuit_def enterDefMeasCalibration_def)

lemma dagger_controlled_x_run:
  "exitGate term_host rx_catalog dagger_controlled_x s
     = Inr (append_result (GateInstr (Dagger (Controlled (Qubit 0) (Gate ''X'' [] [Qubit 1])))) s)"
proof -
  have p: "map_raise (param term_host) (g_param dagger_controlled_x) = Inr []"
    by (simp add: dagger_controlled_x_def)
  have q: "map_raise qubit (g_qubit dagger_controlled_x) = Inr [Qubit 0, Qubit 1]"
    by (simp add: dagger_controlled_x_def qubit_def py_int_0 py_int_1)
  have m: "g_modifier dagger_controlled_x = [''DAGGER'', ''CONTROLLED'']"
    by (simp add: dagger_controlled_x_def)
  have k: "list_all known_modifier (g_modifier dagger_controlled_x)"
    by (simp add: m known_modifier_def)
  have a: "modifier_arity (g_modifier dagger_controlled_x) \<le> length [Qubit 0, Qubit 1]"
    by (simp add: m modifier_arity_def takes_qubit_def)
  have f: "(0::nat) = length ([]::num_term expr list) div 2 ^ count_list (g_modifier dagger_controlled_x) ''FORKED''"
    by simp
  have b: "base_gate rx_catalog (g_name dagger_controlled_x) (take 0 [])
             (drop (modifier_arity (g_modifier dagger_controlled_x)) [Qubit 0, Qubit 1])
           = Inr (Gate ''X'' [] [Qubit 1])"
    by (simp add: base_gate_def rx_catalog_def dagger_controlled_x_def modifier_arity_def
        takes_qubit_def)
  from exitGate_wrap[OF p q k a f b, of s] show ?thesis
    by (simp add: m modifier_arity_def takes_qubit_def wrap_Cons_D wrap_Cons_C)
qed

lemma py_int_q: "py_int ''q'' = Inl (ValueError_int ''q'')" by code_simp

lemma defcal_rx_param: "map_raise (param np) (cal_param defcal_rx) = Inr [Parameter ''theta'']"
  by (simp add: defcal_rx_def param_def variable_def)

lemma defcal_rx_mref_param:
  "map_raise (param np) (cal_param defcal_rx_mref) = Inr [MRef (MemoryReference ''theta'' 0)]"
  by (simp add: defcal_rx_mref_def param_def addr_def py_int_0)

theorem definition_scope_restores_buffer_witness:
  "exitDefCalibration term_host defcal_rx
     (\<lparr>result = [GateInstr (Dagger (Controlled (Qubit 0) (Gate ''X'' [] [Qubit 1])))],
      previous_result = Some [RawInstr ''NOP'']\<rparr> :: num_term PyQuilListener)
     = Inr \<lparr>result = [RawInstr ''NOP'',
                       DefCalibration ''RX'' [Parameter ''theta''] [FormalArgument ''q'']
                         [GateInstr (Dagger (Controlled (Qubit 0) (Gate ''X'' [] [Qubit 1])))]],
            previous_result = None\<rparr>
   \<and> exitDefCircuit raw_out defcircuit_bell
        (\<lparr>result = [GateInstr (Dagger (Controlled (Qubit 0) (Gate ''X'' [] [Qubit 1])))],
         previous_result = Some [RawInstr ''NOP'']\<rparr> :: num_term PyQuilListener)
     = Inr \<lparr>result = [RawInstr ''NOP'',
                       RawInstr (''DEFCIRCUIT BELL a b:'' @ [CHR 0x0A] @ ''    ...'')],
            previous_result = None\<rparr>
   \<and> exitDefMeasCalibration defcal_measure
        (\<lparr>result = [GateInstr (Dagger (Controlled (Qubit 0) (Gate ''X'' [] [Qubit 1])))],
         previous_result = Some [RawInstr ''NOP'']\<rparr> :: num_term PyQuilListener)
     = Inr \<lparr>result = [RawInstr ''NOP'',
                       DefMeasureCalibration (Qubit 0) (Some (FormalArgument ''dest''))
                         [GateInstr (Dagger (Controlled (Qubit 0) (Gate ''X'' [] [Qubit 1])))]],
            previous_result = None\<rparr>"
proof -
  let ?G = "GateInstr (Dagger (Controlled (Qubit 0) (Gate ''X'' [] [Qubit 1])))"
  let ?st = "\<lparr>result = [RawInstr ''NOP''], previous_result = None\<rparr> :: num_term PyQuilListener"
  let ?s = "\<lparr>result = [?G], previous_result = Some [RawInstr ''NOP'']\<rparr> :: num_term PyQuilListener"
  let ?hs = "[exitGate term_host rx_catalog dagger_controlled_x]"
  have hs: "list_all appends_one ?hs"
    by (simp add: exitGate_appends_one)
  have r1: "run_handlers ?hs (enterDefCalibration ?st) = Inr ?s"
    by (simp add: dagger_controlled_x_run enterDefCalibration_def append_result_def)
  have r2: "run_handlers ?hs (enterDefCircuit ?st) = Inr ?s"
    by (simp add: dagger_controlled_x_run enterDefCircuit_def append_result_def)
  have r3: "run_handlers ?hs (enterDefMeasCalibration ?st) = Inr ?s"
    by (simp add: dagger_controlled_x_run enterDefMeasCalibration_def append_result_def)
  have c: "check_mrefs (cal_name defcal_rx) [Parameter ''theta''] = Inr ()"
    by simp
  have o: "map_raise raw_out (result ?s) = Inr [''...'']"
    by simp
  note t = definition_scope_restores_buffer[OF hs, of ?st ?s term_host defcal_rx
      "[Parameter ''theta'']" raw_out "[''...'']" defcircuit_bell defcal_measure]
  from t r1 defcal_rx_param[of term_host] c
  obtain qubits where e1: "exitDefCalibration term_host defcal_rx ?s
      = Inr \<lparr>result = [RawInstr ''NOP'', DefCalibration ''RX'' [Parameter ''theta''] qubits [?G]],
             previous_result = None\<rparr>"
    by (auto simp: defcal_rx_def)
  have q1: "map_raise formalQubit (cal_formalQubit defcal_rx) = Inr [FormalArgument ''q'']"
    by (simp add: defcal_rx_def formalQubit_def qubit_def py_int_q)
  have "exitDefCalibration term_host defcal_rx ?s
      = Inr \<lparr>result = [RawInstr ''NOP'',
                        DefCalibration ''RX'' [Parameter ''theta''] [FormalArgument ''q''] [?G]],
             previous_result = None\<rparr>"
    using exitDefCalibration_eq[OF defcal_rx_param c q1, of ?s "[RawInstr ''NOP'']" term_host]
    by (simp add: defcal_rx_def)
  moreover from t r2 o
  have "exitDefCircuit raw_out defcircuit_bell ?s
      = Inr \<lparr>result = [RawInstr ''NOP'',
                        RawInstr (''DEFCIRCUIT BELL a b:'' @ [CHR 0x0A] @ ''    ...'')],
             previous_result = None\<rparr>"
    by (simp add: defcircuit_bell_def)
  moreover from t r3
  obtain q where e3: "exitDefMeasCalibration defcal_measure ?s
      = Inr \<lparr>result = [RawInstr ''NOP'',
               DefMeasureCalibration q (map_option FormalArgument (mc_name defcal_measure)) [?G]],
              previous_result = None\<rparr>"
    by auto
  have "exitDefMeasCalibration defcal_measure ?s
      = Inr \<lparr>result = [RawInstr ''NOP'',
               DefMeasureCalibration (Qubit 0) (Some (FormalArgument ''dest'')) [?G]],
              previous_result = None\<rparr>"
    by (simp add: exitDefMeasCalibration_def defcal_measure_def formalQubit_def qubit_def py_int_0)
  ultimately show ?thesis by blast
qed

text \<open>
  Claim C5. When the parameters of a calibration definition evaluate, and one of them
  contains a memory reference, the definition fails with the error that carries the
  memory references of the first such parameter and the calibration's name; when none
  contains a memory reference, the definition succeeds and is appended to the buffer
  saved at the entry.
\<close>

theorem exitDefCalibration_memory_references:
  assumes "map_raise (param np) (cal_param ctx) = Inr parameters"
  shows "((\<exists>p\<in>set parameters. contained_mrefs p \<noteq> {}) \<longrightarrow>
            (\<exists>p\<in>set parameters.
               contained_mrefs p \<noteq> {}
               \<and> exitDefCalibration np ctx st
                   = Inl (ValueError_mrefs (contained_mrefs p) (cal_name ctx))
               \<and> p = hd (filter (\<lambda>p. contained_mrefs p \<noteq> {}) parameters)))
       \<and> ((\<forall>p\<in>set parameters. contained_mrefs p = {}) \<and> previous_result st = Some outer \<longrightarrow>
            (\<exists>qubits.
               exitDefCalibration np ctx st
                 = Inr \<lparr>result = outer
                           @ [DefCalibration (cal_name ctx) parameters qubits (result st)],
                        previous_result = None\<rparr>))"
proof (intro conjI impI)
  let ?bad = "filter (\<lambda>p. contained_mrefs p \<noteq> {}) parameters"
  assume "\<exists>p\<in>set parameters. contained_mrefs p \<noteq> {}"
  then have "?bad \<noteq> []" by (simp add: filter_empty_conv)
  then obtain p ps where bad: "?bad = p # ps" by (cases ?bad) simp_all
  then have "p \<in> set ?bad" by simp
  then have p: "p \<in> set parameters" "contained_mrefs p \<noteq> {}" by simp_all
  have "exitDefCalibration np ctx st = Inl (ValueError_mrefs (contained_mrefs p) (cal_name ctx))"
    by (simp add: exitDefCalibration_def Let_def assms check_mrefs_filter bad)
  with p bad
  show "\<exists>p\<in>set parameters.
               contained_mrefs p \<noteq> {}
               \<and> exitDefCalibration np ctx st
                   = Inl (ValueError_mrefs (contained_mrefs p) (cal_name ctx))
               \<and> p = hd (filter (\<lambda>p. contained_mrefs p \<noteq> {}) parameters)"
    by (intro bexI[of _ p]) simp_all
next
  assume a: "(\<forall>p\<in>set parameters. contained_mrefs p = {}) \<and> previous_result st = Some outer"
  then have "filter (\<lambda>p. contained_mrefs p \<noteq> {}) parameters = []"
    by (simp add: filter_empty_conv)
  then have c: "check_mrefs (cal_name ctx) parameters = Inr ()"
    by (simp add: check_mrefs_filter)
  obtain qubits where q: "map_raise formalQubit (cal_formalQubit ctx) = Inr qubits"
    using formalQubits_return by blast
  from exitDefCalibration_eq[OF assms c q, of st outer] a
  show "\<exists>qubits.
               exitDefCalibration np ctx st
                 = Inr \<lparr>result = outer
                           @ [DefCalibration (cal_name ctx) parameters qubits (result st)],
                        previous_result = None\<rparr>"
    by blast
qed

theorem exitDefCalibration_memory_references_witness:
  "exitDefCalibration term_host defcal_rx_mref \<lparr>result = [], previous_result = Some []\<rparr>
     = Inl (ValueError_mrefs {MemoryReference ''theta'' 0} ''RX'')
   \<and> (\<exists>qubits. exitDefCalibration term_host defcal_rx \<lparr>result = [], previous_result = Some []\<rparr>
        = Inr \<lparr>result = [DefCalibration ''RX'' [Parameter ''theta''] qubits []],
               previous_result = None\<rparr>)"
proof -
  let ?s = "\<lparr>result = [], previous_result = Some []\<rparr> :: num_term PyQuilListener"
  have b: "\<exists>p\<in>set [MRef (MemoryReference ''theta'' 0) :: num_term expr]. contained_mrefs p \<noteq> {}"
    by simp
  have g: "(\<forall>p\<in>set [Parameter ''theta'' :: num_term expr]. contained_mrefs p = {})
            \<and> previous_result ?s = Some []"
    by simp
  from exitDefCalibration_memory_references[OF defcal_rx_mref_param, of term_host ?s "[]"] b
  have "exitDefCalibration term_host defcal_rx_mref ?s
          = Inl (ValueError_mrefs {MemoryReference ''theta'' 0} ''RX'')"
    by (simp add: defcal_rx_mref_def)
  moreover from exitDefCalibration_memory_references[OF defcal_rx_param, of term_host ?s "[]"] g
  have "\<exists>qubits. exitDefCalibration term_host defcal_rx ?s
        = Inr \<lparr>result = [DefCalibration ''RX'' [Parameter ''theta''] qubits []],
               previous_result = None\<rparr>"
    by (simp add: defcal_rx_def)
  ultimately show ?thesis by blast
qed

section \<open>Delays and waveform definitions\<close>

lemma float_expression_eval:
  "expression term_host (float_expression t) = Inr (Number (NOp Mul (NInt 1) (NFloat t)))"
  by (simp add: float_expression_def number_def realN_def sign_def term_host_def)

lemma formalQubit_0: "formalQubit \<lparr>q_getText = ''0''\<rparr> = Inr (Qubit 0)"
  by (simp add: formalQubit_def qubit_def py_int_0)

lemma exitDelay_eq:
  assumes "map_raise formalQubit (d_formalQubit ctx) = Inr qubits"
      and "expression np (d_expression ctx) = Inr duration"
  shows "exitDelay np ctx st
           = Inr (append_result
               (if d_STRING ctx \<noteq> []
                then DelayFrames (map (\<lambda>s. Frame qubits (strip_quotes s)) (d_STRING ctx)) duration
                else DelayQubits qubits duration) st)"
  using assms by (simp add: exitDelay_def Let_def comp_def)

text \<open>
  Claim C6, as stated, fails: with two frame names, \<open>DELAY 0 "a" "b" 1.0\<close> appends one
  instruction, not one for each of the two frames.
\<close>

theorem exitDelay_one_per_frame_counterexample:
  "exitDelay term_host delay_two_frames init
     = Inr \<lparr>result = [DelayFrames [Frame [Qubit 0] ''a'', Frame [Qubit 0] ''b'']
                         (Number (NOp Mul (NInt 1) (NFloat ''1.0'')))],
            previous_result = None\<rparr>
   \<and> length (d_STRING delay_two_frames) = 2
   \<and> length [DelayFrames [Frame [Qubit 0] ''a'', Frame [Qubit 0] ''b'']
               (Number (NOp Mul (NInt 1) (NFloat ''1.0'')))] = 1"
proof -
  have q: "map_raise formalQubit (d_formalQubit delay_two_frames) = Inr [Qubit 0]"
    by (simp add: delay_two_frames_def formalQubit_0)
  have d: "expression term_host (d_expression delay_two_frames)
             = Inr (Number (NOp Mul (NInt 1) (NFloat ''1.0'')))"
    by (simp add: delay_two_frames_def float_expression_eval)
  have s: "d_STRING delay_two_frames
             = [[CHR 0x22] @ ''a'' @ [CHR 0x22], [CHR 0x22] @ ''b'' @ [CHR 0x22]]"
    by (simp add: delay_two_frames_def)
  have "exitDelay term_host delay_two_frames init
     = Inr \<lparr>result = [DelayFrames [Frame [Qubit 0] ''a'', Frame [Qubit 0] ''b'']
                         (Number (NOp Mul (NInt 1) (NFloat ''1.0'')))],
            previous_result = None\<rparr>"
    unfolding exitDelay_eq[OF q d] s
    by (simp add: strip_quotes_def append_result_def init_def)
  then show ?thesis by (simp add: s)
qed

text \<open>
  Claim C6, amended. When the duration evaluates, a \<open>DELAY\<close> node appends exactly one
  instruction. With frame names it is one delay on frames, which holds one frame for each
  name, in order, each on the given qubits and named by the string without its quotes;
  without frame names it is the delay on the given qubits. Both hold the duration.
\<close>

theorem exitDelay_frames_or_qubits:
  assumes "expression np (d_expression ctx) = Inr duration"
  shows "\<exists>qubits. map_raise formalQubit (d_formalQubit ctx) = Inr qubits
           \<and> (d_STRING ctx \<noteq> [] \<longrightarrow>
                exitDelay np ctx st
                  = Inr (append_result
                      (DelayFrames (map (\<lambda>s. Frame qubits (strip_quotes s)) (d_STRING ctx))
                         duration) st))
           \<and> (d_STRING ctx = [] \<longrightarrow>
                exitDelay np ctx st = Inr (append_result (DelayQubits qubits duration) st))"
proof -
  obtain qubits where q: "map_raise formalQubit (d_formalQubit ctx) = Inr qubits"
    using formalQubits_return by blast
  show ?thesis
    using q exitDelay_eq[OF q assms, of st] by auto
qed

theorem exitDelay_frames_or_qubits_witness:
  "exitDelay term_host delay_two_frames init
     = Inr (append_result
         (DelayFrames [Frame [Qubit 0] ''a'', Frame [Qubit 0] ''b'']
            (Number (NOp Mul (NInt 1) (NFloat ''1.0'')))) init)
   \<and> exitDelay term_host delay_qubits init
     = Inr (append_result
         (DelayQubits [Qubit 0] (Number (NOp Mul (NInt 1) (NFloat ''1.0'')))) init)"
proof -
  have q1: "map_raise formalQubit (d_formalQubit delay_two_frames) = Inr [Qubit 0]"
    by (simp add: delay_two_frames_def formalQubit_0)
  have q2: "map_raise formalQubit (d_formalQubit delay_qubits) = Inr [Qubit 0]"
    by (simp add: delay_qubits_def formalQubit_0)
  have d1: "expression term_host (d_expression delay_two_frames)
             = Inr (Number (NOp Mul (NInt 1) (NFloat ''1.0'')))"
    by (simp add: delay_two_frames_def float_expression_eval)
  have d2: "expression term_host (d_expression delay_qubits)
             = Inr (Number (NOp Mul (NInt 1) (NFloat ''1.0'')))"
    by (simp add: delay_qubits_def float_expression_eval)
  have s1: "d_STRING delay_two_frames
             = [[CHR 0x22] @ ''a'' @ [CHR 0x22], [CHR 0x22] @ ''b'' @ [CHR 0x22]]"
    by (simp add: delay_two_frames_def)
  have s2: "d_STRING delay_qubits = []"
    by (simp add: delay_qubits_def)
  from exitDelay_frames_or_qubits[OF d1, of init] q1
  have "exitDelay term_host delay_two_frames init
     = Inr (append_result
         (DelayFrames [Frame [Qubit 0] ''a'', Frame [Qubit 0] ''b'']
            (Number (NOp Mul (NInt 1) (NFloat ''1.0'')))) init)"
    unfolding s1 by (auto simp: strip_quotes_def)
  moreover from exitDelay_frames_or_qubits[OF d2, of init] q2
  have "exitDelay term_host delay_qubits init
     = Inr (append_result
         (DelayQubits [Qubit 0] (Number (NOp Mul (NInt 1) (NFloat ''1.0'')))) init)"
    unfolding s2 by auto
  ultimately show ?thesis by blast
qed

text \<open>
  Claim C7. A waveform definition whose name is a key of the table of waveform templates
  fails with the error of a redefinition, whatever its parameters and entries are: the
  handler returns no state, and nothing is appended. A definition whose name is not in the
  table, and whose entries evaluate, appends the waveform with its name, the texts of its
  parameters and the entries of its rows in one list.
\<close>

theorem exitDefWaveform_reserved_names:
  "(waveform_classes (waveform_name (w_waveformName ctx)) \<noteq> None \<longrightarrow>
      exitDefWaveform np waveform_classes ctx st
        = Inl (ValueError (''Attempted to redefine built-in template waveform ''
                 @ waveform_name (w_waveformName ctx) @ ''.'')))
   \<and> (waveform_classes (waveform_name (w_waveformName ctx)) = None
        \<and> matrix np (w_matrix ctx) = Inr rows \<longrightarrow>
      exitDefWaveform np waveform_classes ctx st
        = Inr (append_result
            (DefWaveform (waveform_name (w_waveformName ctx)) (w_param ctx) (concat rows)) st))"
  by (simp add: exitDefWaveform_def Let_def)

theorem exitDefWaveform_reserved_names_witness:
  "exitDefWaveform term_host flat_templates defwaveform_flat init
     = Inl (ValueError ''Attempted to redefine built-in template waveform flat.'')
   \<and> exitDefWaveform term_host flat_templates defwaveform_mine init
     = Inr (append_result
         (DefWaveform ''my_wf'' []
            [Number (NOp Mul (NInt 1) (NFloat ''1.0'')),
             Number (NOp Mul (NInt 1) (NFloat ''0.5''))]) init)"
proof -
  have n1: "waveform_name (w_waveformName defwaveform_flat) = ''flat''"
    by (simp add: defwaveform_flat_def waveform_name_def)
  have n2: "waveform_name (w_waveformName defwaveform_mine) = ''my_wf''"
    by (simp add: defwaveform_mine_def waveform_name_def)
  have r1: "flat_templates (waveform_name (w_waveformName defwaveform_flat)) \<noteq> None"
    by (simp add: n1 flat_templates_def)
  have r2: "flat_templates (waveform_name (w_waveformName defwaveform_mine)) = None"
    by (simp add: n2 flat_templates_def)
  have m: "matrix term_host (w_matrix defwaveform_mine)
             = Inr [[Number (NOp Mul (NInt 1) (NFloat ''1.0'')),
                     Number (NOp Mul (NInt 1) (NFloat ''0.5''))]]"
    by (simp add: defwaveform_mine_def matrix_def float_expression_eval)
  have p: "w_param defwaveform_mine = []"
    by (simp add: defwaveform_mine_def)
  from exitDefWaveform_reserved_names[where waveform_classes=flat_templates and ctx=defwaveform_flat
      and np=term_host and st=init] r1
  have "exitDefWaveform term_host flat_templates defwaveform_flat init
     = Inl (ValueError ''Attempted to redefine built-in template waveform flat.'')"
    by (simp add: n1)
  moreover
  from exitDefWaveform_reserved_names[where waveform_classes=flat_templates and ctx=defwaveform_mine
      and np=term_host and st=init] r2 m
  have "exitDefWaveform term_host flat_templates defwaveform_mine init
     = Inr (append_result
         (DefWaveform ''my_wf'' []
            [Number (NOp Mul (NInt 1) (NFloat ''1.0'')),
             Number (NOp Mul (NInt 1) (NFloat ''0.5''))]) init)"
    by (simp add: n2 p)
  ultimately show ?thesis by blast
qed

section \<open>Syntax errors\<close>

lemma get_expected_tokens_display:
  "get_expected_tokens literalNames symbolicNames toks
     = map_raise (display_name literalNames symbolicNames) toks"
  by (induction toks) (auto simp: display_name_def split: sum.splits)

lemma display_name_nat:
  "t < length literalNames \<Longrightarrow> t < length symbolicNames \<Longrightarrow>
   display_name literalNames symbolicNames (int t)
     = Inr (if literalNames ! t = ''<INVALID>'' then symbolicNames ! t else literalNames ! t)"
  by (simp add: display_name_def py_index_nat)

lemma str_int_3: "str_int 3 = ''3''" by code_simp

lemma str_int_6: "str_int 6 = ''6''" by code_simp

lemma str_int_1: "str_int 1 = ''1''" by code_simp

text \<open>
  A syntax error reported to the listener always raises, and never returns. When the
  tables hold the expected tokens, the error is the \<open>RuntimeError\<close> whose message holds
  the line as given (the parser counts lines from one), the column plus one, the text of
  the offending token and the display names of the expected tokens, in the order of the
  interval set and joined by commas; the display name of a token type within the tables
  is the token's literal name, or its symbolic name when the literal name is
  \<open><INVALID>\<close>. An error reported without an exception has no expected tokens, and the
  list is empty.
\<close>

lemma syntaxError_raises:
  "(e = Some toks \<and> map_raise (display_name literalNames symbolicNames) toks = Inr names \<longrightarrow>
      syntaxError literalNames symbolicNames offending line column e
        = Inl (RuntimeError
            (''Error encountered while parsing the quil program at line '' @ str_int line
             @ '' and column '' @ str_int (column + 1) @ [CHR 0x0A]
             @ ''Received an '' @ [CHR 0x27] @ offending @ [CHR 0x27]
             @ '' but was expecting one of [ '' @ join '', '' names @ '' ]'')))
   \<and> (e = None \<longrightarrow>
      syntaxError literalNames symbolicNames offending line column e
        = Inl (RuntimeError
            (''Error encountered while parsing the quil program at line '' @ str_int line
             @ '' and column '' @ str_int (column + 1) @ [CHR 0x0A]
             @ ''Received an '' @ [CHR 0x27] @ offending @ [CHR 0x27]
             @ '' but was expecting one of [  ]'')))
   \<and> (t < length literalNames \<and> t < length symbolicNames \<longrightarrow>
      display_name literalNames symbolicNames (int t)
        = Inr (if literalNames ! t = ''<INVALID>'' then symbolicNames ! t else literalNames ! t))
   \<and> (\<exists>err. syntaxError literalNames symbolicNames offending line column e = Inl err)"
proof (intro conjI impI)
  show "\<exists>err. syntaxError literalNames symbolicNames offending line column e = Inl err"
  proof (cases e)
    case None
    then show ?thesis by (simp add: syntaxError_def)
  next
    case (Some toks)
    then show ?thesis
      by (cases "get_expected_tokens literalNames symbolicNames toks")
        (simp_all add: syntaxError_def)
  qed
qed (simp_all add: syntaxError_def get_expected_tokens_display display_name_nat)

lemma py_index_last: "xs \<noteq> [] \<Longrightarrow> py_index xs (- 1) = Inr (last xs)"
proof -
  assume xs: "xs \<noteq> []"
  then have l: "Suc 0 \<le> length xs" by (cases xs) simp_all
  then have n: "nat (int (length xs) + - 1) = length xs - 1" by linarith
  from l have "py_index xs (- 1) = Inr (xs ! nat (int (length xs) + - 1))"
    by (simp add: py_index_def)
  then show ?thesis by (simp only: n last_conv_nth[OF xs])
qed

text \<open>
  Claim C8. A syntax error raises one \<open>RuntimeError\<close>, whose message holds the line, the
  column plus one, the text of the offending token and the names of the expected tokens,
  in the order of the interval set. The end of the input is an expected token as any
  other, of type \<open>-1\<close>, and the tables have no entry for it: read at \<open>-1\<close>, each table
  gives its last entry. So whenever the end of the input is among the expected tokens,
  the message does not name it by a literal form or a symbolic name of its own: it names
  the last token type of the grammar in its place (by its literal name, or by its
  symbolic name when the literal name is \<open><INVALID>\<close>).
\<close>

theorem syntaxError_end_of_input:
  "literalNames \<noteq> [] \<and> symbolicNames \<noteq> []
   \<and> get_expected_tokens literalNames symbolicNames toks = Inr names \<longrightarrow>
     get_expected_tokens literalNames symbolicNames (- 1 # toks)
       = Inr ((if last literalNames \<noteq> ''<INVALID>'' then last literalNames
               else last symbolicNames) # names)
     \<and> syntaxError literalNames symbolicNames offending line column (Some (- 1 # toks))
       = Inl (RuntimeError
           (''Error encountered while parsing the quil program at line '' @ str_int line
            @ '' and column '' @ str_int (column + 1) @ [CHR 0x0A]
            @ ''Received an '' @ [CHR 0x27] @ offending @ [CHR 0x27]
            @ '' but was expecting one of [ ''
            @ join '', '' ((if last literalNames \<noteq> ''<INVALID>'' then last literalNames
                            else last symbolicNames) # names)
            @ '' ]''))"
proof (intro impI)
  assume a: "literalNames \<noteq> [] \<and> symbolicNames \<noteq> []
             \<and> get_expected_tokens literalNames symbolicNames toks = Inr names"
  then have l: "py_index literalNames (- 1) = Inr (last literalNames)"
    and s: "py_index symbolicNames (- 1) = Inr (last symbolicNames)"
    by (simp_all add: py_index_last)
  from a have g: "get_expected_tokens literalNames symbolicNames (- 1 # toks)
       = Inr ((if last literalNames \<noteq> ''<INVALID>'' then last literalNames
               else last symbolicNames) # names)"
    by (simp add: l s)
  show "get_expected_tokens literalNames symbolicNames (- 1 # toks)
       = Inr ((if last literalNames \<noteq> ''<INVALID>'' then last literalNames
               else last symbolicNames) # names)
     \<and> syntaxError literalNames symbolicNames offending line column (Some (- 1 # toks))
       = Inl (RuntimeError
           (''Error encountered while parsing the quil program at line '' @ str_int line
            @ '' and column '' @ str_int (column + 1) @ [CHR 0x0A]
            @ ''Received an '' @ [CHR 0x27] @ offending @ [CHR 0x27]
            @ '' but was expecting one of [ ''
            @ join '', '' ((if last literalNames \<noteq> ''<INVALID>'' then last literalNames
                            else last symbolicNames) # names)
            @ '' ]''))"
    unfolding syntaxError_def option.case g on_ok_Inr by simp
qed

theorem syntaxError_end_of_input_witness:
  "get_expected_tokens sample_literalNames sample_symbolicNames [- 1, 1]
     = Inr [''INT'', [CHR 0x27] @ ''H'' @ [CHR 0x27]]
   \<and> syntaxError sample_literalNames sample_symbolicNames ''FOO'' 3 5 (Some [- 1, 1])
     = Inl (RuntimeError
         (''Error encountered while parsing the quil program at line 3 and column 6''
          @ [CHR 0x0A] @ ''Received an '' @ [CHR 0x27] @ ''FOO'' @ [CHR 0x27]
          @ '' but was expecting one of [ INT, '' @ [CHR 0x27] @ ''H'' @ [CHR 0x27] @ '' ]''))"
proof -
  have d: "display_name sample_literalNames sample_symbolicNames (int 1)
             = Inr ([CHR 0x27] @ ''H'' @ [CHR 0x27])"
    by (subst display_name_nat) (simp_all add: sample_literalNames_def sample_symbolicNames_def)
  have g: "get_expected_tokens sample_literalNames sample_symbolicNames [1]
             = Inr [[CHR 0x27] @ ''H'' @ [CHR 0x27]]"
    using d by (simp add: get_expected_tokens_display)
  have n: "sample_literalNames \<noteq> [] \<and> sample_symbolicNames \<noteq> []"
    by (simp add: sample_literalNames_def sample_symbolicNames_def)
  have e: "last sample_literalNames = ''<INVALID>''" "last sample_symbolicNames = ''INT''"
    by (simp_all add: sample_literalNames_def sample_symbolicNames_def)
  from syntaxError_end_of_input[where literalNames=sample_literalNames
      and symbolicNames=sample_symbolicNames and toks="[1]"
      and names="[[CHR 0x27] @ ''H'' @ [CHR 0x27]]" and offending="''FOO''"
      and line=3 and column=5] n g
  show ?thesis
    by (simp add: e str_int_3 str_int_6)
qed

section \<open>Memory declarations and logical operations\<close>

lemma offset_pairs_digits:
  "\<forall>d\<in>set offs. o_INT d \<noteq> [] \<and> (\<forall>c\<in>set (o_INT d). is_digit c) \<Longrightarrow>
   map_raise offset_pair offs
     = Inr (map (\<lambda>d. (int (digits_val (o_INT d)), o_IDENTIFIER d)) offs)"
  by (induction offs) (simp_all add: offset_pair_def py_int_digits)

text \<open>
  Claim C9. A memory declaration with a name and a type appends one \<open>Declare\<close>. Without
  an integer size its element count is 1. Without \<open>SHARING\<close> it has no shared region and
  no offsets. With \<open>SHARING\<close> it has the shared region's name and, for every offset
  descriptor in source order, the pair of its integer and its type identifier.
\<close>

theorem exitMemoryDescriptor_declare:
  assumes "m_IDENTIFIER ctx = name # memory_type # others"
      and "(case m_INT ctx of Some t \<Rightarrow> py_int t | None \<Rightarrow> Inr 1) = Inr memory_size"
  shows "(m_INT ctx = None \<longrightarrow> memory_size = 1)
       \<and> (\<not> m_SHARING ctx \<longrightarrow>
            exitMemoryDescriptor ctx st
              = Inr (append_result (Declare name memory_type memory_size None []) st))
       \<and> (m_SHARING ctx \<and> others = shared_region # rest
            \<and> (\<forall>d\<in>set (m_offsetDescriptor ctx).
                  o_INT d \<noteq> [] \<and> (\<forall>c\<in>set (o_INT d). is_digit c)) \<longrightarrow>
            exitMemoryDescriptor ctx st
              = Inr (append_result
                  (Declare name memory_type memory_size (Some shared_region)
                     (map (\<lambda>d. (int (digits_val (o_INT d)), o_IDENTIFIER d))
                        (m_offsetDescriptor ctx))) st))"
proof (intro conjI impI)
  show "memory_size = 1" if "m_INT ctx = None"
    using assms(2) that by simp
  show "exitMemoryDescriptor ctx st
              = Inr (append_result (Declare name memory_type memory_size None []) st)"
    if "\<not> m_SHARING ctx"
    using assms that by (simp add: exitMemoryDescriptor_def token_text_def)
  show "exitMemoryDescriptor ctx st
              = Inr (append_result
                  (Declare name memory_type memory_size (Some shared_region)
                     (map (\<lambda>d. (int (digits_val (o_INT d)), o_IDENTIFIER d))
                        (m_offsetDescriptor ctx))) st)"
    if a: "m_SHARING ctx \<and> others = shared_region # rest
            \<and> (\<forall>d\<in>set (m_offsetDescriptor ctx).
                  o_INT d \<noteq> [] \<and> (\<forall>c\<in>set (o_INT d). is_digit c))"
  proof -
    from a have o: "map_raise offset_pair (m_offsetDescriptor ctx)
        = Inr (map (\<lambda>d. (int (digits_val (o_INT d)), o_IDENTIFIER d)) (m_offsetDescriptor ctx))"
      by (intro offset_pairs_digits) simp
    show ?thesis
      using assms a by (simp add: exitMemoryDescriptor_def token_text_def o)
  qed
qed

theorem exitMemoryDescriptor_declare_witness:
  "exitMemoryDescriptor declare_sharing init
     = Inr (append_result (Declare ''ro'' ''BIT'' 1 (Some ''foo'') [(2, ''INTEGER'')]) init)
   \<and> exitMemoryDescriptor (declare_sharing\<lparr>m_SHARING := False\<rparr>) init
     = Inr (append_result (Declare ''ro'' ''BIT'' 1 None []) init)"
proof -
  have i: "m_IDENTIFIER declare_sharing = ''ro'' # ''BIT'' # [''foo'']"
    by (simp add: declare_sharing_def)
  have n: "(case m_INT declare_sharing of Some t \<Rightarrow> py_int t | None \<Rightarrow> Inr 1) = Inr 1"
    by (simp add: declare_sharing_def)
  have s: "m_SHARING declare_sharing \<and> [''foo''] = ''foo'' # []
            \<and> (\<forall>d\<in>set (m_offsetDescriptor declare_sharing).
                  o_INT d \<noteq> [] \<and> (\<forall>c\<in>set (o_INT d). is_digit c))"
    by (simp add: declare_sharing_def is_digit_def)
  have v: "digits_val ''2'' = 2"
    by (simp add: digits_val_def digit_val_def)
  from exitMemoryDescriptor_declare[OF i n, of init "''foo''" "[]"] s
  have "exitMemoryDescriptor declare_sharing init
     = Inr (append_result (Declare ''ro'' ''BIT'' 1 (Some ''foo'') [(2, ''INTEGER'')]) init)"
    by (simp add: declare_sharing_def v)
  moreover
  let ?c = "declare_sharing\<lparr>m_SHARING := False\<rparr>"
  have i': "m_IDENTIFIER ?c = ''ro'' # ''BIT'' # [''foo'']"
    by (simp add: declare_sharing_def)
  have n': "(case m_INT ?c of Some t \<Rightarrow> py_int t | None \<Rightarrow> Inr 1) = Inr 1"
    by (simp add: declare_sharing_def)
  from exitMemoryDescriptor_declare[OF i' n', of init]
  have "exitMemoryDescriptor ?c init
     = Inr (append_result (Declare ''ro'' ''BIT'' 1 None []) init)"
    by simp
  ultimately show ?thesis by blast
qed


text \<open>
  Claim C10. With a left address, \<open>AND\<close>, \<open>IOR\<close> and \<open>XOR\<close> append their instruction
  whether the right operand is an integer literal or an address. \<open>OR\<close> appends its
  instruction when the right operand is an address, and raises \<open>RuntimeError\<close>, returning
  no state and appending nothing, when the right operand is an integer literal.
\<close>

theorem exitLogicalBinaryOp_operands:
  assumes "addr_at (l_addr ctx) 0 = Inr left"
  shows "(l_INT ctx = Some t \<and> py_int t = Inr i \<longrightarrow>
            (l_AND ctx \<longrightarrow>
               exitLogicalBinaryOp ctx st
                 = Inr (append_result (ClassicalAnd left (OpInt i)) st))
          \<and> (\<not> l_AND ctx \<and> l_OR ctx \<longrightarrow>
               exitLogicalBinaryOp ctx st
                 = Inl (RuntimeError
                     (''Right operand of deprecated OR instruction must be a MemoryReference, ''
                      @ ''but found '' @ [CHR 0x27] @ str_int i @ [CHR 0x27])))
          \<and> (\<not> l_AND ctx \<and> \<not> l_OR ctx \<and> l_IOR ctx \<longrightarrow>
               exitLogicalBinaryOp ctx st
                 = Inr (append_result (ClassicalInclusiveOr left (OpInt i)) st))
          \<and> (\<not> l_AND ctx \<and> \<not> l_OR ctx \<and> \<not> l_IOR ctx \<and> l_XOR ctx \<longrightarrow>
               exitLogicalBinaryOp ctx st
                 = Inr (append_result (ClassicalExclusiveOr left (OpInt i)) st)))
       \<and> (l_INT ctx = None \<and> addr_at (l_addr ctx) 1 = Inr m \<longrightarrow>
            (l_AND ctx \<longrightarrow>
               exitLogicalBinaryOp ctx st
                 = Inr (append_result (ClassicalAnd left (OpRef m)) st))
          \<and> (\<not> l_AND ctx \<and> l_OR ctx \<longrightarrow>
               exitLogicalBinaryOp ctx st = Inr (append_result (ClassicalOr left m) st))
          \<and> (\<not> l_AND ctx \<and> \<not> l_OR ctx \<and> l_IOR ctx \<longrightarrow>
               exitLogicalBinaryOp ctx st
                 = Inr (append_result (ClassicalInclusiveOr left (OpRef m)) st))
          \<and> (\<not> l_AND ctx \<and> \<not> l_OR ctx \<and> \<not> l_IOR ctx \<and> l_XOR ctx \<longrightarrow>
               exitLogicalBinaryOp ctx st
                 = Inr (append_result (ClassicalExclusiveOr left (OpRef m)) st)))"
  using assms by (simp add: exitLogicalBinaryOp_def)

theorem exitLogicalBinaryOp_operands_witness:
  "exitLogicalBinaryOp or_literal init
     = Inl (RuntimeError
         (''Right operand of deprecated OR instruction must be a MemoryReference, ''
          @ ''but found '' @ [CHR 0x27] @ ''1'' @ [CHR 0x27]))
   \<and> exitLogicalBinaryOp and_literal init
     = Inr (append_result (ClassicalAnd (MemoryReference ''ro'' 0) (OpInt 1)) init)
   \<and> exitLogicalBinaryOp
        (or_literal\<lparr>l_INT := None,
           l_addr := [\<lparr>a_IDENTIFIER = Some ''ro'', a_INT = Some ''0''\<rparr>,
                      \<lparr>a_IDENTIFIER = Some ''ro'', a_INT = Some ''1''\<rparr>]\<rparr>) init
     = Inr (append_result
         (ClassicalOr (MemoryReference ''ro'' 0) (MemoryReference ''ro'' 1)) init)"
proof -
  let ?or_addr = "or_literal\<lparr>l_INT := None,
           l_addr := [\<lparr>a_IDENTIFIER = Some ''ro'', a_INT = Some ''0''\<rparr>,
                      \<lparr>a_IDENTIFIER = Some ''ro'', a_INT = Some ''1''\<rparr>]\<rparr>"
  have a1: "addr_at (l_addr or_literal) 0 = Inr (MemoryReference ''ro'' 0)"
    by (simp add: or_literal_def addr_at_def addr_def py_int_0)
  have a2: "addr_at (l_addr and_literal) 0 = Inr (MemoryReference ''ro'' 0)"
    by (simp add: and_literal_def addr_at_def addr_def py_int_0)
  have a3: "addr_at (l_addr ?or_addr) 0 = Inr (MemoryReference ''ro'' 0)"
    by (simp add: addr_at_def addr_def py_int_0)
  have i1: "l_INT or_literal = Some ''1'' \<and> py_int ''1'' = Inr 1"
    by (simp add: or_literal_def py_int_1)
  have i2: "l_INT and_literal = Some ''1'' \<and> py_int ''1'' = Inr 1"
    by (simp add: and_literal_def py_int_1)
  have i3: "l_INT ?or_addr = None \<and> addr_at (l_addr ?or_addr) 1 = Inr (MemoryReference ''ro'' 1)"
    by (simp add: addr_at_def addr_def py_int_1)
  have f1: "\<not> l_AND or_literal \<and> l_OR or_literal"
    by (simp add: or_literal_def)
  have f2: "l_AND and_literal"
    by (simp add: and_literal_def)
  have f3: "\<not> l_AND ?or_addr \<and> l_OR ?or_addr"
    by (simp add: or_literal_def)
  from exitLogicalBinaryOp_operands[OF a1, of "''1''" 1 init] i1 f1
  have "exitLogicalBinaryOp or_literal init
     = Inl (RuntimeError
         (''Right operand of deprecated OR instruction must be a MemoryReference, ''
          @ ''but found '' @ [CHR 0x27] @ ''1'' @ [CHR 0x27]))"
    by (simp add: str_int_1)
  moreover
  from exitLogicalBinaryOp_operands[OF a2, of "''1''" 1 init] i2 f2
  have "exitLogicalBinaryOp and_literal init
     = Inr (append_result (ClassicalAnd (MemoryReference ''ro'' 0) (OpInt 1)) init)"
    by simp
  moreover
  from exitLogicalBinaryOp_operands[OF a3, where m="MemoryReference ''ro'' 1" and st=init] i3 f3
  have "exitLogicalBinaryOp ?or_addr init
     = Inr (append_result
         (ClassicalOr (MemoryReference ''ro'' 0) (MemoryReference ''ro'' 1)) init)"
    by simp
  ultimately show ?thesis by blast
qed

end
